theory Spec2Isabelle
  imports Main
begin

section \<open>The client cache of resource metadata\<close>

text \<open>
  The Go file of package \<open>client\<close> keeps, for every kind of object sent to the API server,
  a \<open>resourceMeta\<close>: a REST client, the group/version/kind and the REST mapping. The
  records are built on first use and kept in two maps of the \<open>clientCache\<close>, one keyed by
  \<open>reflect.Type\<close>, one keyed by \<open>schema.GroupVersionKind\<close>.

  The model follows the Go code function by function. Pointers to \<open>resourceMeta\<close> are
  addresses into an explicit heap, the calls into \<open>apiutil\<close> and the \<open>RESTMapper\<close> are
  written to a log, and every \<open>return nil, err\<close> is a left injection. The functions of
  \<open>k8s.io/apimachinery\<close> and \<open>controller-runtime\<close> that the file calls are parameters.
  Objects are non-nil, the two maps of the cache are initialised, and a REST mapping
  returned without an error is a non-nil pointer to a mapping with a scope; it is held by
  value. The mutexes do nothing in a sequential run: each function is modelled as one call
  running alone, and the section under the write lock is a definition of its own. Callers
  that are inside a lookup at the same time are modelled apart, as interleavings of the
  locked sections.
\<close>

subsection \<open>Data\<close>

type_synonym error = string

text \<open>\<open>schema.GroupVersionKind\<close> and its method \<open>GroupKind()\<close>.\<close>

record GroupVersionKind =
  Group :: string
  Version :: string
  Kind :: string

definition GroupKind :: "GroupVersionKind \<Rightarrow> string \<times> string" where
  "GroupKind g = (Group g, Kind g)"

text \<open>
  \<open>meta.RESTScope\<close> is seen through \<open>Name()\<close> only, \<open>meta.RESTMapping\<close> through
  the fields \<open>Resource\<close> and \<open>Scope\<close>. \<open>meta.RESTScopeNameRoot\<close> is the constant
  \<open>"root"\<close> of apimachinery.
\<close>

type_synonym RESTScopeName = string

definition RESTScopeNameRoot :: RESTScopeName where
  "RESTScopeNameRoot = ''root''"

record RESTScope =
  Name :: RESTScopeName

record RESTMapping =
  Resource :: string
  Scope :: RESTScope

text \<open>
  \<open>reflect.Type\<close>: the two pointer types that \<open>getResource\<close> asserts, and every
  other concrete type by its name.
\<close>

datatype reflect_Type = PtrUnstructured | PtrUnstructuredList | OtherType string

text \<open>
  A \<open>runtime.Object\<close>, by what this file and the library functions it calls observe of
  the object alone: \<open>reflect.TypeOf(obj)\<close>, \<open>obj.GetObjectKind().GroupVersionKind()\<close>,
  \<open>meta.IsListType(obj)\<close> and \<open>meta.Accessor(obj)\<close>.
\<close>

record 'acc object =
  TypeOf :: reflect_Type
  ObjectKind :: GroupVersionKind
  IsListType :: bool
  Accessor :: "error + 'acc"

text \<open>\<open>resourceMeta\<close> (lines 157-164); \<open>'cl\<close> is \<open>rest.Interface\<close>.\<close>

record 'cl resourceMeta =
  Interface :: 'cl
  gvk :: GroupVersionKind
  mapping :: RESTMapping

type_synonym ref = nat

text \<open>\<open>objMeta\<close> (lines 180-186): a pointer to a \<open>resourceMeta\<close> and a \<open>v1.Object\<close>.\<close>

record 'acc objMeta =
  resourceMeta :: ref
  Object :: 'acc

text \<open>\<open>clientCache\<close> (lines 35-55).\<close>

record ('cfg, 'sch, 'map, 'cod) clientCache =
  config :: 'cfg
  scheme :: 'sch
  mapper :: 'map
  codecs :: 'cod
  resourceByType :: "reflect_Type \<rightharpoonup> ref"
  unstructuredResourceByGVK :: "GroupVersionKind \<rightharpoonup> ref"

text \<open>
  The functions called outside this repository: \<open>apiutil.GVKForObject\<close>,
  \<open>apiutil.RESTUnstructuredClientForGVK\<close>, \<open>apiutil.RESTClientForGVK\<close> and the method
  \<open>RESTMapping\<close> of the \<open>meta.RESTMapper\<close>. Their results may change from one call of
  the cache to the next (the scheme is registered into, discovery answers differently), so
  the operations take them as an argument.
\<close>

record ('cfg, 'sch, 'map, 'cod, 'cl, 'acc) collaborators =
  GVKForObject :: "'acc object \<Rightarrow> 'sch \<Rightarrow> error + GroupVersionKind"
  RESTUnstructuredClientForGVK :: "GroupVersionKind \<Rightarrow> 'cfg \<Rightarrow> error + 'cl"
  RESTClientForGVK :: "GroupVersionKind \<Rightarrow> 'cfg \<Rightarrow> 'cod \<Rightarrow> error + 'cl"
  RESTMappingFor :: "'map \<Rightarrow> string \<times> string \<Rightarrow> string \<Rightarrow> error + RESTMapping"

text \<open>The log of the calls made to the collaborators, oldest first.\<close>

datatype 'acc call =
    Call_GVKForObject "'acc object"
  | Call_RESTUnstructuredClientForGVK GroupVersionKind
  | Call_RESTClientForGVK GroupVersionKind
  | Call_RESTMapping "string \<times> string" string

text \<open>
  What a call changes besides the cache: the heap of \<open>resourceMeta\<close> records (the address
  of a record is its index; \<open>&resourceMeta{...}\<close> appends) and the log.
\<close>

record ('cl, 'acc) world =
  heap :: "'cl resourceMeta list"
  calls :: "'acc call list"

definition called :: "'acc call \<Rightarrow> ('cl, 'acc) world \<Rightarrow> ('cl, 'acc) world" where
  "called x w = w\<lparr>calls := calls w @ [x]\<rparr>"

definition alloc :: "'cl resourceMeta \<Rightarrow> ('cl, 'acc) world \<Rightarrow> ref \<times> ('cl, 'acc) world" where
  "alloc v w = (length (heap w), w\<lparr>heap := heap w @ [v]\<rparr>)"

subsection \<open>Operations\<close>

text \<open>Go's \<open>strings.HasSuffix\<close>; strings are byte sequences on both sides.\<close>

definition HasSuffix :: "string \<Rightarrow> string \<Rightarrow> bool" where
  "HasSuffix s suffix =
     (length s \<ge> length suffix \<and> drop (length s - length suffix) s = suffix)"

text \<open>
  \<open>newResource\<close> (lines 59-84), with two of its steps named: the kind of a list becomes
  the kind of its items (lines 65-68), and the client is built in one of two ways
  (lines 70-75).
\<close>

definition itemGVK :: "'acc object \<Rightarrow> GroupVersionKind \<Rightarrow> GroupVersionKind" where
  "itemGVK obj g =
     (if HasSuffix (Kind g) ''List'' \<and> IsListType obj
      then g\<lparr>Kind := take (length (Kind g) - 4) (Kind g)\<rparr>
      else g)"

definition clientForGVK ::
  "('cfg, 'sch, 'map, 'cod, 'cl, 'acc) collaborators \<Rightarrow> ('cfg, 'sch, 'map, 'cod) clientCache \<Rightarrow>
     bool \<Rightarrow> GroupVersionKind \<Rightarrow> error + 'cl" where
  "clientForGVK L c isUnstructured g =
     (if isUnstructured then RESTUnstructuredClientForGVK L g (config c)
      else RESTClientForGVK L g (config c) (codecs c))"

definition newResource ::
  "('cfg, 'sch, 'map, 'cod, 'cl, 'acc) collaborators \<Rightarrow> ('cfg, 'sch, 'map, 'cod) clientCache \<Rightarrow>
     'acc object \<Rightarrow> bool \<Rightarrow> ('cl, 'acc) world \<Rightarrow> (error + ref) \<times> ('cl, 'acc) world" where
  "newResource L c obj isUnstructured w =
     (let w1 = called (Call_GVKForObject obj) w in
      case GVKForObject L obj (scheme c) of
        Inl err \<Rightarrow> (Inl err, w1)
      | Inr gvk0 \<Rightarrow>
          let g = itemGVK obj gvk0;
              w2 = called (if isUnstructured then Call_RESTUnstructuredClientForGVK g
                           else Call_RESTClientForGVK g) w1
          in case clientForGVK L c isUnstructured g of
               Inl err \<Rightarrow> (Inl err, w2)
             | Inr client \<Rightarrow>
                 let w3 = called (Call_RESTMapping (GroupKind g) (Version g)) w2
                 in case RESTMappingFor L (mapper c) (GroupKind g) (Version g) of
                      Inl err \<Rightarrow> (Inl err, w3)
                    | Inr m \<Rightarrow>
                        let (r, w4) = alloc \<lparr>Interface = client, gvk = g, mapping = m\<rparr> w3
                        in (Inr r, w4))"

text \<open>
  \<open>getUnstructuredResourceByGVK\<close> (lines 86-106): first the section under the write lock
  (lines 98-105), then the whole function, which probes under the read lock (lines 89-95).
\<close>

definition getUnstructuredResourceByGVK_Lock ::
  "('cfg, 'sch, 'map, 'cod, 'cl, 'acc) collaborators \<Rightarrow> ('cfg, 'sch, 'map, 'cod) clientCache \<Rightarrow>
     'acc object \<Rightarrow> ('cl, 'acc) world \<Rightarrow>
     (error + ref) \<times> ('cfg, 'sch, 'map, 'cod) clientCache \<times> ('cl, 'acc) world" where
  "getUnstructuredResourceByGVK_Lock L c obj w =
     (case newResource L c obj True w of
        (Inl err, w') \<Rightarrow> (Inl err, c, w')
      | (Inr r, w') \<Rightarrow>
          (Inr r,
           c\<lparr>unstructuredResourceByGVK := (unstructuredResourceByGVK c)(ObjectKind obj \<mapsto> r)\<rparr>,
           w'))"

definition getUnstructuredResourceByGVK ::
  "('cfg, 'sch, 'map, 'cod, 'cl, 'acc) collaborators \<Rightarrow> ('cfg, 'sch, 'map, 'cod) clientCache \<Rightarrow>
     'acc object \<Rightarrow> ('cl, 'acc) world \<Rightarrow>
     (error + ref) \<times> ('cfg, 'sch, 'map, 'cod) clientCache \<times> ('cl, 'acc) world" where
  "getUnstructuredResourceByGVK L c obj w =
     (case unstructuredResourceByGVK c (ObjectKind obj) of
        Some r \<Rightarrow> (Inr r, c, w)
      | None \<Rightarrow> getUnstructuredResourceByGVK_Lock L c obj w)"

text \<open>\<open>getResourceByType\<close> (lines 108-130), split the same way (lines 122-129).\<close>

definition getResourceByType_Lock ::
  "('cfg, 'sch, 'map, 'cod, 'cl, 'acc) collaborators \<Rightarrow> ('cfg, 'sch, 'map, 'cod) clientCache \<Rightarrow>
     'acc object \<Rightarrow> ('cl, 'acc) world \<Rightarrow>
     (error + ref) \<times> ('cfg, 'sch, 'map, 'cod) clientCache \<times> ('cl, 'acc) world" where
  "getResourceByType_Lock L c obj w =
     (let typ = TypeOf obj in
      case newResource L c obj False w of
        (Inl err, w') \<Rightarrow> (Inl err, c, w')
      | (Inr r, w') \<Rightarrow> (Inr r, c\<lparr>resourceByType := (resourceByType c)(typ \<mapsto> r)\<rparr>, w'))"

definition getResourceByType ::
  "('cfg, 'sch, 'map, 'cod, 'cl, 'acc) collaborators \<Rightarrow> ('cfg, 'sch, 'map, 'cod) clientCache \<Rightarrow>
     'acc object \<Rightarrow> ('cl, 'acc) world \<Rightarrow>
     (error + ref) \<times> ('cfg, 'sch, 'map, 'cod) clientCache \<times> ('cl, 'acc) world" where
  "getResourceByType L c obj w =
     (let typ = TypeOf obj in
      case resourceByType c typ of
        Some r \<Rightarrow> (Inr r, c, w)
      | None \<Rightarrow> getResourceByType_Lock L c obj w)"

text \<open>
  \<open>getResource\<close> (lines 134-141). A type assertion to a concrete pointer type succeeds
  exactly when that is the dynamic type of the object.
\<close>

definition getResource ::
  "('cfg, 'sch, 'map, 'cod, 'cl, 'acc) collaborators \<Rightarrow> ('cfg, 'sch, 'map, 'cod) clientCache \<Rightarrow>
     'acc object \<Rightarrow> ('cl, 'acc) world \<Rightarrow>
     (error + ref) \<times> ('cfg, 'sch, 'map, 'cod) clientCache \<times> ('cl, 'acc) world" where
  "getResource L c obj w =
     (let isUnstructured = (TypeOf obj = PtrUnstructured);
          isUnstructuredList = (TypeOf obj = PtrUnstructuredList)
      in if isUnstructured \<or> isUnstructuredList
         then getUnstructuredResourceByGVK L c obj w
         else getResourceByType L c obj w)"

text \<open>\<open>getObjMeta\<close> (lines 144-154). The \<open>objMeta\<close> is returned by value.\<close>

definition getObjMeta ::
  "('cfg, 'sch, 'map, 'cod, 'cl, 'acc) collaborators \<Rightarrow> ('cfg, 'sch, 'map, 'cod) clientCache \<Rightarrow>
     'acc object \<Rightarrow> ('cl, 'acc) world \<Rightarrow>
     (error + 'acc objMeta) \<times> ('cfg, 'sch, 'map, 'cod) clientCache \<times> ('cl, 'acc) world" where
  "getObjMeta L c obj w =
     (case getResource L c obj w of
        (Inl err, c', w') \<Rightarrow> (Inl err, c', w')
      | (Inr r, c', w') \<Rightarrow>
          (case Accessor obj of
             Inl err \<Rightarrow> (Inl err, c', w')
           | Inr m \<Rightarrow> (Inr \<lparr>resourceMeta = r, Object = m\<rparr>, c', w')))"

text \<open>\<open>isNamespaced\<close> (lines 167-172) and \<open>resource\<close> (lines 175-177).\<close>

definition isNamespaced :: "'cl resourceMeta \<Rightarrow> bool" where
  "isNamespaced r = (if Name (Scope (mapping r)) = RESTScopeNameRoot then False else True)"

definition resource :: "'cl resourceMeta \<Rightarrow> string" where
  "resource r = Resource (mapping r)"

subsection \<open>Sequences of calls\<close>

text \<open>
  One caller after the other: a request names the method called and its argument, and comes
  with the behaviour of the collaborators at that moment. \<open>serve\<close> keeps the cache and the
  world the call leaves behind, \<open>run\<close> serves a list of requests in order.
\<close>

datatype 'acc request =
    Req_getResource "'acc object"
  | Req_getResourceByType "'acc object"
  | Req_getUnstructuredResourceByGVK "'acc object"
  | Req_getObjMeta "'acc object"

fun serve ::
  "('cfg, 'sch, 'map, 'cod, 'cl, 'acc) collaborators \<Rightarrow> 'acc request \<Rightarrow>
     ('cfg, 'sch, 'map, 'cod) clientCache \<times> ('cl, 'acc) world \<Rightarrow>
     ('cfg, 'sch, 'map, 'cod) clientCache \<times> ('cl, 'acc) world" where
  "serve L (Req_getResource obj) (c, w) = snd (getResource L c obj w)"
| "serve L (Req_getResourceByType obj) (c, w) = snd (getResourceByType L c obj w)"
| "serve L (Req_getUnstructuredResourceByGVK obj) (c, w) =
     snd (getUnstructuredResourceByGVK L c obj w)"
| "serve L (Req_getObjMeta obj) (c, w) = snd (getObjMeta L c obj w)"

fun run ::
  "(('cfg, 'sch, 'map, 'cod, 'cl, 'acc) collaborators \<times> 'acc request) list \<Rightarrow>
     ('cfg, 'sch, 'map, 'cod) clientCache \<times> ('cl, 'acc) world \<Rightarrow>
     ('cfg, 'sch, 'map, 'cod) clientCache \<times> ('cl, 'acc) world" where
  "run [] s = s"
| "run ((L, q) # qs) s = run qs (serve L q s)"

text \<open>Every pointer held in a table points into the heap.\<close>

definition valid_refs :: "('cfg, 'sch, 'map, 'cod) clientCache \<Rightarrow> ('cl, 'acc) world \<Rightarrow> bool" where
  "valid_refs c w =
     (\<forall>r. r \<in> ran (resourceByType c) \<union> ran (unstructuredResourceByGVK c) \<longrightarrow>
          r < length (heap w))"

subsection \<open>Callers racing on one table\<close>

text \<open>
  Several callers inside the same lookup at once. \<open>sync.RWMutex\<close> makes the two locked
  sections of a lookup atomic with respect to its table: the probe under the read lock
  (lines 113-115, 89-91) and the section under the write lock (lines 122-129, 98-105). A
  caller is its argument and how far it has come: about to probe, past a probe that missed,
  or returned. \<open>advance\<close> runs the next section of one caller, \<open>race\<close> runs the callers in
  the order a schedule names them; a schedule may name a caller any number of times, in any
  order, and a caller that has returned does nothing more.
\<close>

datatype path = ByType | ByGVK

datatype phase = Probing | Missed | Returned "error + ref"


definition probe ::
  "path \<Rightarrow> ('cfg, 'sch, 'map, 'cod) clientCache \<Rightarrow> 'acc object \<Rightarrow> ref option" where
  "probe p c obj =
     (case p of
        ByType \<Rightarrow> resourceByType c (TypeOf obj)
      | ByGVK \<Rightarrow> unstructuredResourceByGVK c (ObjectKind obj))"

definition locked ::
  "path \<Rightarrow> ('cfg, 'sch, 'map, 'cod, 'cl, 'acc) collaborators \<Rightarrow>
     ('cfg, 'sch, 'map, 'cod) clientCache \<Rightarrow> 'acc object \<Rightarrow> ('cl, 'acc) world \<Rightarrow>
     (error + ref) \<times> ('cfg, 'sch, 'map, 'cod) clientCache \<times> ('cl, 'acc) world" where
  "locked p L c obj w =
     (case p of
        ByType \<Rightarrow> getResourceByType_Lock L c obj w
      | ByGVK \<Rightarrow> getUnstructuredResourceByGVK_Lock L c obj w)"

fun advance ::
  "path \<Rightarrow> ('cfg, 'sch, 'map, 'cod, 'cl, 'acc) collaborators \<Rightarrow> 'acc object \<times> phase \<Rightarrow>
     ('cfg, 'sch, 'map, 'cod) clientCache \<times> ('cl, 'acc) world \<Rightarrow>
     ('acc object \<times> phase) \<times> ('cfg, 'sch, 'map, 'cod) clientCache \<times> ('cl, 'acc) world" where
  "advance p L (obj, Probing) (c, w) =
     (case probe p c obj of
        Some r \<Rightarrow> ((obj, Returned (Inr r)), c, w)
      | None \<Rightarrow> ((obj, Missed), c, w))"
| "advance p L (obj, Missed) (c, w) =
     (case locked p L c obj w of (res, c', w') \<Rightarrow> ((obj, Returned res), c', w'))"
| "advance p L (obj, Returned x) (c, w) = ((obj, Returned x), c, w)"

fun race ::
  "path \<Rightarrow> ('cfg, 'sch, 'map, 'cod, 'cl, 'acc) collaborators \<Rightarrow> nat list \<Rightarrow>
     ('acc object \<times> phase) list \<times> ('cfg, 'sch, 'map, 'cod) clientCache \<times> ('cl, 'acc) world \<Rightarrow>
     ('acc object \<times> phase) list \<times> ('cfg, 'sch, 'map, 'cod) clientCache \<times> ('cl, 'acc) world"
  where
  "race p L [] s = s"
| "race p L (i # sch) (ts, c, w) =
     (if i < length ts
      then (case advance p L (ts ! i) (c, w) of
              (t, c', w') \<Rightarrow> race p L sch (ts[i := t], c', w'))
      else race p L sch (ts, c, w))"

text \<open>The callers as they enter, none has probed yet.\<close>

definition entering :: "'acc object list \<Rightarrow> ('acc object \<times> phase) list" where
  "entering os = map (\<lambda>obj. (obj, Probing)) os"




subsection \<open>A concrete cache\<close>

text \<open>
  Stub collaborators for the examples: the resolver answers the declared
  group/version/kind, the two client constructors succeed with a name, and the mapper knows
  the namespaced kind \<open>Widget\<close> and the cluster-scoped kind \<open>Gadget\<close> of group \<open>apps\<close>.
\<close>

definition stubs :: "(unit, unit, unit, unit, string, string) collaborators" where
  "stubs =
     \<lparr>GVKForObject = (\<lambda>obj _. Inr (ObjectKind obj)),
      RESTUnstructuredClientForGVK = (\<lambda>_ _. Inr ''dynamic''),
      RESTClientForGVK = (\<lambda>_ _ _. Inr ''typed''),
      RESTMappingFor = (\<lambda>_ gk _.
         if gk = (''apps'', ''Widget'')
         then Inr \<lparr>Resource = ''widgets'', Scope = \<lparr>Name = ''namespace''\<rparr>\<rparr>
         else if gk = (''apps'', ''Gadget'')
         then Inr \<lparr>Resource = ''gadgets'', Scope = \<lparr>Name = ''root''\<rparr>\<rparr>
         else Inl ''no matches for kind'')\<rparr>"

text \<open>The same with a scheme that knows no type.\<close>

definition broken :: "(unit, unit, unit, unit, string, string) collaborators" where
  "broken = stubs\<lparr>GVKForObject := (\<lambda>_ _. Inl ''no kind is registered'')\<rparr>"

text \<open>And with client constructors that reject the configuration.\<close>

definition noClient :: "(unit, unit, unit, unit, string, string) collaborators" where
  "noClient =
     stubs\<lparr>RESTUnstructuredClientForGVK := (\<lambda>_ _. Inl ''bad config''),
           RESTClientForGVK := (\<lambda>_ _ _. Inl ''bad config'')\<rparr>"

definition cache0 :: "(unit, unit, unit, unit) clientCache" where
  "cache0 =
     \<lparr>config = (), scheme = (), mapper = (), codecs = (),
      resourceByType = Map.empty, unstructuredResourceByGVK = Map.empty\<rparr>"

definition world0 :: "(string, string) world" where
  "world0 = \<lparr>heap = [], calls = []\<rparr>"

definition widgetGVK :: GroupVersionKind where
  "widgetGVK = \<lparr>Group = ''apps'', Version = ''v1'', Kind = ''Widget''\<rparr>"

definition widgetListGVK :: GroupVersionKind where
  "widgetListGVK = \<lparr>Group = ''apps'', Version = ''v1'', Kind = ''WidgetList''\<rparr>"

definition widget :: "string object" where
  "widget =
     \<lparr>TypeOf = OtherType ''*v1.Widget'', ObjectKind = widgetGVK, IsListType = False,
      Accessor = Inr ''w1''\<rparr>"

definition dynWidget :: "string object" where
  "dynWidget =
     \<lparr>TypeOf = PtrUnstructured, ObjectKind = widgetGVK, IsListType = False,
      Accessor = Inr ''w2''\<rparr>"

definition dynWidgetList :: "string object" where
  "dynWidgetList =
     \<lparr>TypeOf = PtrUnstructuredList, ObjectKind = widgetListGVK, IsListType = True,
      Accessor = Inl ''object does not implement the Object interfaces''\<rparr>"

text \<open>A typed object of a kind the mapper does not know.\<close>

definition gizmo :: "string object" where
  "gizmo =
     \<lparr>TypeOf = OtherType ''*v1.Gizmo'',
      ObjectKind = \<lparr>Group = ''apps'', Version = ''v1'', Kind = ''Gizmo''\<rparr>,
      IsListType = False, Accessor = Inr ''g1''\<rparr>"

text \<open>
  A schema-less object of that kind, and a second typed \<open>Widget\<close>.
\<close>

definition dynGizmo :: "string object" where
  "dynGizmo =
     \<lparr>TypeOf = PtrUnstructured,
      ObjectKind = \<lparr>Group = ''apps'', Version = ''v1'', Kind = ''Gizmo''\<rparr>,
      IsListType = False, Accessor = Inr ''g2''\<rparr>"

definition widget2 :: "string object" where
  "widget2 =
     \<lparr>TypeOf = OtherType ''*v1.Widget'', ObjectKind = widgetGVK, IsListType = False,
      Accessor = Inr ''w3''\<rparr>"

definition widgetMeta :: "string resourceMeta" where
  "widgetMeta =
     \<lparr>Interface = ''typed'', gvk = widgetGVK,
      mapping = \<lparr>Resource = ''widgets'', Scope = \<lparr>Name = ''namespace''\<rparr>\<rparr>\<rparr>"

definition gadgetMeta :: "string resourceMeta" where
  "gadgetMeta =
     \<lparr>Interface = ''typed'',
      gvk = \<lparr>Group = ''apps'', Version = ''v1'', Kind = ''Gadget''\<rparr>,
      mapping = \<lparr>Resource = ''gadgets'', Scope = \<lparr>Name = ''root''\<rparr>\<rparr>\<rparr>"

text \<open>
  A cache that has resolved a typed \<open>Widget\<close> and then a schema-less one, and the same
  cache after two more requests, the second with a resolver that fails.
\<close>

definition warm :: "(unit, unit, unit, unit) clientCache \<times> (string, string) world" where
  "warm = run [(stubs, Req_getResource widget), (stubs, Req_getResource dynWidget)]
            (cache0, world0)"

definition later :: "(unit, unit, unit, unit) clientCache \<times> (string, string) world" where
  "later = run [(stubs, Req_getObjMeta dynWidgetList), (broken, Req_getResource widget)] warm"

section \<open>Properties\<close>

subsection \<open>Construction of a record\<close>

lemma newResource_Inl_heap:
  "newResource L c obj b w = (Inl e, w') \<Longrightarrow> heap w' = heap w"
  by (auto simp: newResource_def Let_def called_def alloc_def split: sum.splits)

lemma newResource_Inr_heap:
  "newResource L c obj b w = (Inr r, w') \<Longrightarrow>
     r = length (heap w) \<and> (\<exists>v. heap w' = heap w @ [v])"
  by (auto simp: newResource_def Let_def called_def alloc_def split: sum.splits)

lemma newResource_calls:
  "newResource L c obj b w = (res, w') \<Longrightarrow>
     \<exists>cs. calls w' = calls w @ Call_GVKForObject obj # cs"
  by (auto simp: newResource_def Let_def called_def alloc_def split: sum.splits)

lemma newResource_Inr_record:
  "newResource L c obj b w = (Inr r, w') \<Longrightarrow>
     \<exists>g0 cl m. GVKForObject L obj (scheme c) = Inr g0 \<and>
       clientForGVK L c b (itemGVK obj g0) = Inr cl \<and>
       RESTMappingFor L (mapper c) (GroupKind (itemGVK obj g0)) (Version (itemGVK obj g0)) = Inr m \<and>
       heap w' ! r = \<lparr>Interface = cl, gvk = itemGVK obj g0, mapping = m\<rparr>"
  by (auto simp: newResource_def Let_def called_def alloc_def split: sum.splits)

lemma newResource_Inl_cause:
  "newResource L c obj b w = (Inl e, w') \<Longrightarrow>
     GVKForObject L obj (scheme c) = Inl e \<or>
     (\<exists>g0. GVKForObject L obj (scheme c) = Inr g0 \<and>
        (clientForGVK L c b (itemGVK obj g0) = Inl e \<or>
         (\<exists>cl. clientForGVK L c b (itemGVK obj g0) = Inr cl \<and>
            RESTMappingFor L (mapper c) (GroupKind (itemGVK obj g0)) (Version (itemGVK obj g0)) = Inl e)))"
  by (auto simp: newResource_def Let_def called_def alloc_def split: sum.splits)

lemma newResource_fail_GVK:
  "GVKForObject L obj (scheme c) = Inl e \<Longrightarrow> fst (newResource L c obj b w) = Inl e"
  by (simp add: newResource_def Let_def)

lemma newResource_fail_client:
  "GVKForObject L obj (scheme c) = Inr g0 \<Longrightarrow> clientForGVK L c b (itemGVK obj g0) = Inl e \<Longrightarrow>
     fst (newResource L c obj b w) = Inl e"
  by (simp add: newResource_def Let_def)

lemma newResource_fail_mapping:
  "GVKForObject L obj (scheme c) = Inr g0 \<Longrightarrow> clientForGVK L c b (itemGVK obj g0) = Inr cl \<Longrightarrow>
   RESTMappingFor L (mapper c) (GroupKind (itemGVK obj g0)) (Version (itemGVK obj g0)) = Inl e \<Longrightarrow>
     fst (newResource L c obj b w) = Inl e"
  by (simp add: newResource_def Let_def)

lemma HasSuffix_append: "HasSuffix (k @ s) s"
  by (simp add: HasSuffix_def)

lemma HasSuffix_iff: "HasSuffix s suf = (\<exists>k. s = k @ suf)"
  by (auto simp: HasSuffix_def) (metis append_take_drop_id)

lemma itemGVK_list:
  "Kind g = k @ ''List'' \<Longrightarrow> IsListType obj \<Longrightarrow> itemGVK obj g = g\<lparr>Kind := k\<rparr>"
  by (simp add: itemGVK_def HasSuffix_append)

lemma itemGVK_other:
  "(\<nexists>k. Kind g = k @ ''List'') \<or> \<not> IsListType obj \<Longrightarrow> itemGVK obj g = g"
  by (auto simp: itemGVK_def HasSuffix_iff)

subsection \<open>The outcomes of a lookup\<close>

lemma getResourceByType_cases:
  assumes "getResourceByType L c obj w = (res, c', w')"
  shows "(\<exists>r. resourceByType c (TypeOf obj) = Some r \<and> res = Inr r \<and> c' = c \<and> w' = w) \<or>
     (resourceByType c (TypeOf obj) = None \<and> (\<exists>e. res = Inl e) \<and> c' = c \<and> heap w' = heap w) \<or>
     (resourceByType c (TypeOf obj) = None \<and> res = Inr (length (heap w)) \<and>
        c' = c\<lparr>resourceByType := (resourceByType c)(TypeOf obj \<mapsto> length (heap w))\<rparr> \<and>
        (\<exists>v. heap w' = heap w @ [v]))"
proof (cases "resourceByType c (TypeOf obj)")
  case (Some r)
  with assms show ?thesis by (simp add: getResourceByType_def)
next
  case None
  obtain x w1 where n: "newResource L c obj False w = (x, w1)" by (cases "newResource L c obj False w")
  show ?thesis
  proof (cases x)
    case (Inl e)
    with n None assms newResource_Inl_heap[of L c obj False w e w1] show ?thesis
      by (auto simp: getResourceByType_def getResourceByType_Lock_def)
  next
    case (Inr r)
    with n None assms newResource_Inr_heap[of L c obj False w r w1] show ?thesis
      by (auto simp: getResourceByType_def getResourceByType_Lock_def)
  qed
qed

lemma getUnstructuredResourceByGVK_cases:
  assumes "getUnstructuredResourceByGVK L c obj w = (res, c', w')"
  shows "(\<exists>r. unstructuredResourceByGVK c (ObjectKind obj) = Some r \<and> res = Inr r \<and> c' = c \<and> w' = w) \<or>
     (unstructuredResourceByGVK c (ObjectKind obj) = None \<and> (\<exists>e. res = Inl e) \<and> c' = c \<and>
        heap w' = heap w) \<or>
     (unstructuredResourceByGVK c (ObjectKind obj) = None \<and> res = Inr (length (heap w)) \<and>
        c' = c\<lparr>unstructuredResourceByGVK :=
                 (unstructuredResourceByGVK c)(ObjectKind obj \<mapsto> length (heap w))\<rparr> \<and>
        (\<exists>v. heap w' = heap w @ [v]))"
proof (cases "unstructuredResourceByGVK c (ObjectKind obj)")
  case (Some r)
  with assms show ?thesis by (simp add: getUnstructuredResourceByGVK_def)
next
  case None
  obtain x w1 where n: "newResource L c obj True w = (x, w1)" by (cases "newResource L c obj True w")
  show ?thesis
  proof (cases x)
    case (Inl e)
    with n None assms newResource_Inl_heap[of L c obj True w e w1] show ?thesis
      by (auto simp: getUnstructuredResourceByGVK_def getUnstructuredResourceByGVK_Lock_def)
  next
    case (Inr r)
    with n None assms newResource_Inr_heap[of L c obj True w r w1] show ?thesis
      by (auto simp: getUnstructuredResourceByGVK_def getUnstructuredResourceByGVK_Lock_def)
  qed
qed

lemma getObjMeta_state: "snd (getObjMeta L c obj w) = snd (getResource L c obj w)"
  by (simp add: getObjMeta_def split: prod.splits sum.splits)

text \<open>What one request can do to the cache and the heap.\<close>

lemma serve_cases:
  assumes "serve L q (c, w) = (c', w')"
  shows "(c' = c \<and> heap w' = heap w) \<or>
     (\<exists>k v. resourceByType c k = None \<and>
        c' = c\<lparr>resourceByType := (resourceByType c)(k \<mapsto> length (heap w))\<rparr> \<and>
        heap w' = heap w @ [v]) \<or>
     (\<exists>k v. unstructuredResourceByGVK c k = None \<and>
        c' = c\<lparr>unstructuredResourceByGVK :=
                 (unstructuredResourceByGVK c)(k \<mapsto> length (heap w))\<rparr> \<and>
        heap w' = heap w @ [v])"
proof -
  have T: ?thesis if "snd (getResourceByType L c obj w) = (c', w')" for obj
  proof -
    from that have "getResourceByType L c obj w = (fst (getResourceByType L c obj w), c', w')"
      by (metis prod.collapse)
    from getResourceByType_cases[OF this] show ?thesis by blast
  qed
  have G: ?thesis if "snd (getUnstructuredResourceByGVK L c obj w) = (c', w')" for obj
  proof -
    from that have "getUnstructuredResourceByGVK L c obj w =
        (fst (getUnstructuredResourceByGVK L c obj w), c', w')"
      by (metis prod.collapse)
    from getUnstructuredResourceByGVK_cases[OF this] show ?thesis by blast
  qed
  have R: ?thesis if "snd (getResource L c obj w) = (c', w')" for obj
    using that T[of obj] G[of obj] by (simp add: getResource_def Let_def split: if_splits)
  show ?thesis
  proof (cases q)
    case (Req_getResource obj)
    with assms R[of obj] show ?thesis by simp
  next
    case (Req_getResourceByType obj)
    with assms T[of obj] show ?thesis by simp
  next
    case (Req_getUnstructuredResourceByGVK obj)
    with assms G[of obj] show ?thesis by simp
  next
    case (Req_getObjMeta obj)
    with assms R[of obj] show ?thesis by (simp add: getObjMeta_state)
  qed
qed

lemma valid_refs_iff:
  "valid_refs c w =
     ((\<forall>k r. resourceByType c k = Some r \<longrightarrow> r < length (heap w)) \<and>
      (\<forall>k r. unstructuredResourceByGVK c k = Some r \<longrightarrow> r < length (heap w)))"
  by (auto simp: valid_refs_def ran_def)

lemma serve_valid_refs:
  assumes "valid_refs c w" and "serve L q (c, w) = (c', w')"
  shows "valid_refs c' w'"
  using serve_cases[OF assms(2)] assms(1)
  by (fastforce simp: valid_refs_iff less_Suc_eq split: if_splits)

lemma serve_keeps_byType:
  assumes "resourceByType c k = Some r" and "serve L q (c, w) = (c', w')"
  shows "resourceByType c' k = Some r"
  using serve_cases[OF assms(2)] assms(1) by auto

lemma serve_keeps_byGVK:
  assumes "unstructuredResourceByGVK c k = Some r" and "serve L q (c, w) = (c', w')"
  shows "unstructuredResourceByGVK c' k = Some r"
  using serve_cases[OF assms(2)] assms(1) by auto

lemma serve_keeps_heap:
  assumes "r < length (heap w)" and "serve L q (c, w) = (c', w')"
  shows "r < length (heap w') \<and> heap w' ! r = heap w ! r"
  using serve_cases[OF assms(2)] assms(1) by (auto simp: nth_append)

lemma serve_disjoint:
  assumes "valid_refs c w"
    and "ran (resourceByType c) \<inter> ran (unstructuredResourceByGVK c) = {}"
    and "serve L q (c, w) = (c', w')"
  shows "ran (resourceByType c') \<inter> ran (unstructuredResourceByGVK c') = {}"
proof -
  have fresh: "length (heap w) \<notin> ran (resourceByType c) \<union> ran (unstructuredResourceByGVK c)"
    using assms(1) by (auto simp: valid_refs_def)
  from serve_cases[OF assms(3)] show ?thesis
  proof (elim disjE exE conjE)
    assume "c' = c" with assms(2) show ?thesis by simp
  next
    fix k v assume "resourceByType c k = None"
      "c' = c\<lparr>resourceByType := (resourceByType c)(k \<mapsto> length (heap w))\<rparr>"
    with assms(2) fresh show ?thesis by auto
  next
    fix k v assume "unstructuredResourceByGVK c k = None"
      "c' = c\<lparr>unstructuredResourceByGVK :=
                 (unstructuredResourceByGVK c)(k \<mapsto> length (heap w))\<rparr>"
    with assms(2) fresh show ?thesis by auto
  qed
qed

lemma serve_not_in_byGVK:
  assumes "r < length (heap w)" and "r \<notin> ran (unstructuredResourceByGVK c)"
    and "serve L q (c, w) = (c', w')"
  shows "r \<notin> ran (unstructuredResourceByGVK c')"
  using serve_cases[OF assms(3)] assms(1,2) by auto

lemma serve_not_in_byType:
  assumes "r < length (heap w)" and "r \<notin> ran (resourceByType c)"
    and "serve L q (c, w) = (c', w')"
  shows "r \<notin> ran (resourceByType c')"
  using serve_cases[OF assms(3)] assms(1,2) by auto

subsection \<open>Sequences of requests\<close>

lemma run_valid_refs:
  "valid_refs c w \<Longrightarrow> run qs (c, w) = (c', w') \<Longrightarrow> valid_refs c' w'"
proof (induction qs arbitrary: c w)
  case Nil
  then show ?case by simp
next
  case (Cons a qs)
  obtain L q where a: "a = (L, q)" by (cases a)
  obtain c1 w1 where s: "serve L q (c, w) = (c1, w1)" by (cases "serve L q (c, w)")
  from Cons.prems(2) a s have "run qs (c1, w1) = (c', w')" by simp
  with Cons.IH[of c1 w1] serve_valid_refs[OF Cons.prems(1) s] show ?case by simp
qed

lemma run_keeps_byType:
  "resourceByType c k = Some r \<Longrightarrow> run qs (c, w) = (c', w') \<Longrightarrow> resourceByType c' k = Some r"
proof (induction qs arbitrary: c w)
  case Nil
  then show ?case by simp
next
  case (Cons a qs)
  obtain L q where a: "a = (L, q)" by (cases a)
  obtain c1 w1 where s: "serve L q (c, w) = (c1, w1)" by (cases "serve L q (c, w)")
  from Cons.prems(2) a s have "run qs (c1, w1) = (c', w')" by simp
  with Cons.IH[of c1 w1] serve_keeps_byType[OF Cons.prems(1) s] show ?case by simp
qed

lemma run_keeps_byGVK:
  "unstructuredResourceByGVK c k = Some r \<Longrightarrow> run qs (c, w) = (c', w') \<Longrightarrow>
     unstructuredResourceByGVK c' k = Some r"
proof (induction qs arbitrary: c w)
  case Nil
  then show ?case by simp
next
  case (Cons a qs)
  obtain L q where a: "a = (L, q)" by (cases a)
  obtain c1 w1 where s: "serve L q (c, w) = (c1, w1)" by (cases "serve L q (c, w)")
  from Cons.prems(2) a s have "run qs (c1, w1) = (c', w')" by simp
  with Cons.IH[of c1 w1] serve_keeps_byGVK[OF Cons.prems(1) s] show ?case by simp
qed

lemma run_keeps_heap:
  "r < length (heap w) \<Longrightarrow> run qs (c, w) = (c', w') \<Longrightarrow>
     r < length (heap w') \<and> heap w' ! r = heap w ! r"
proof (induction qs arbitrary: c w)
  case Nil
  then show ?case by simp
next
  case (Cons a qs)
  obtain L q where a: "a = (L, q)" by (cases a)
  obtain c1 w1 where s: "serve L q (c, w) = (c1, w1)" by (cases "serve L q (c, w)")
  from Cons.prems(2) a s have "run qs (c1, w1) = (c', w')" by simp
  with Cons.IH[of w1 c1] serve_keeps_heap[OF Cons.prems(1) s] show ?case by simp
qed

lemma run_disjoint:
  "valid_refs c w \<Longrightarrow> ran (resourceByType c) \<inter> ran (unstructuredResourceByGVK c) = {} \<Longrightarrow>
   run qs (c, w) = (c', w') \<Longrightarrow>
     ran (resourceByType c') \<inter> ran (unstructuredResourceByGVK c') = {}"
proof (induction qs arbitrary: c w)
  case Nil
  then show ?case by simp
next
  case (Cons a qs)
  obtain L q where a: "a = (L, q)" by (cases a)
  obtain c1 w1 where s: "serve L q (c, w) = (c1, w1)" by (cases "serve L q (c, w)")
  from Cons.prems(3) a s have "run qs (c1, w1) = (c', w')" by simp
  with Cons.IH[of c1 w1] serve_valid_refs[OF Cons.prems(1) s]
    serve_disjoint[OF Cons.prems(1,2) s] show ?case by simp
qed

lemma run_not_in_byGVK:
  "r < length (heap w) \<Longrightarrow> r \<notin> ran (unstructuredResourceByGVK c) \<Longrightarrow>
   run qs (c, w) = (c', w') \<Longrightarrow> r \<notin> ran (unstructuredResourceByGVK c')"
proof (induction qs arbitrary: c w)
  case Nil
  then show ?case by simp
next
  case (Cons a qs)
  obtain L q where a: "a = (L, q)" by (cases a)
  obtain c1 w1 where s: "serve L q (c, w) = (c1, w1)" by (cases "serve L q (c, w)")
  from Cons.prems(3) a s have "run qs (c1, w1) = (c', w')" by simp
  with Cons.IH[of w1 c1] serve_keeps_heap[OF Cons.prems(1) s]
    serve_not_in_byGVK[OF Cons.prems(1,2) s] show ?case by simp
qed

lemma run_not_in_byType:
  "r < length (heap w) \<Longrightarrow> r \<notin> ran (resourceByType c) \<Longrightarrow>
   run qs (c, w) = (c', w') \<Longrightarrow> r \<notin> ran (resourceByType c')"
proof (induction qs arbitrary: c w)
  case Nil
  then show ?case by simp
next
  case (Cons a qs)
  obtain L q where a: "a = (L, q)" by (cases a)
  obtain c1 w1 where s: "serve L q (c, w) = (c1, w1)" by (cases "serve L q (c, w)")
  from Cons.prems(3) a s have "run qs (c1, w1) = (c', w')" by simp
  with Cons.IH[of w1 c1] serve_keeps_heap[OF Cons.prems(1) s]
    serve_not_in_byType[OF Cons.prems(1,2) s] show ?case by simp
qed

subsection \<open>Namespace scope\<close>

text \<open>
  C7. \<open>isNamespaced\<close> is false exactly when the name of the scope of the REST mapping is
  the root scope name, and true for every other scope; it is a function of the record alone.
\<close>

theorem isNamespaced_iff_not_root:
  "(isNamespaced r = False \<longleftrightarrow> Name (Scope (mapping r)) = RESTScopeNameRoot) \<and>
   (isNamespaced r = True \<longleftrightarrow> Name (Scope (mapping r)) \<noteq> RESTScopeNameRoot)"
  by (simp add: isNamespaced_def)

lemma isNamespaced_examples: "isNamespaced widgetMeta \<and> \<not> isNamespaced gadgetMeta"
  by (simp add: isNamespaced_def widgetMeta_def gadgetMeta_def RESTScopeNameRoot_def)

subsection \<open>Lists resolve to their items\<close>

text \<open>
  C5. When \<open>newResource\<close> succeeds and the resolver derived the kind \<open>k @ "List"\<close> for an
  object that is a list, the record describes kind \<open>k\<close>: its \<open>gvk\<close> has kind \<open>k\<close>, and its
  client and its REST mapping are the ones of kind \<open>k\<close>. When the kind has no such suffix
  or the object is not a list, the record describes the derived kind unchanged.
\<close>

theorem newResource_list_item_kind:
  assumes "newResource L c obj b w = (Inr r, w')"
    and "GVKForObject L obj (scheme c) = Inr g0"
  shows "(Kind g0 = k @ ''List'' \<and> IsListType obj \<longrightarrow>
            gvk (heap w' ! r) = g0\<lparr>Kind := k\<rparr> \<and>
            clientForGVK L c b (g0\<lparr>Kind := k\<rparr>) = Inr (Interface (heap w' ! r)) \<and>
            RESTMappingFor L (mapper c) (Group g0, k) (Version g0) = Inr (mapping (heap w' ! r))) \<and>
         ((\<nexists>k'. Kind g0 = k' @ ''List'') \<or> \<not> IsListType obj \<longrightarrow>
            gvk (heap w' ! r) = g0 \<and>
            clientForGVK L c b g0 = Inr (Interface (heap w' ! r)) \<and>
            RESTMappingFor L (mapper c) (Group g0, Kind g0) (Version g0) =
              Inr (mapping (heap w' ! r)))"
proof -
  from newResource_Inr_record[OF assms(1)] assms(2)
  obtain cl m where cl: "clientForGVK L c b (itemGVK obj g0) = Inr cl"
    and m: "RESTMappingFor L (mapper c) (GroupKind (itemGVK obj g0)) (Version (itemGVK obj g0)) = Inr m"
    and h: "heap w' ! r = \<lparr>Interface = cl, gvk = itemGVK obj g0, mapping = m\<rparr>"
    by auto
  have A: "Kind g0 = k @ ''List'' \<and> IsListType obj \<Longrightarrow> itemGVK obj g0 = g0\<lparr>Kind := k\<rparr>"
    by (simp add: itemGVK_list)
  have B: "(\<nexists>k'. Kind g0 = k' @ ''List'') \<or> \<not> IsListType obj \<Longrightarrow> itemGVK obj g0 = g0"
    by (rule itemGVK_other)
  show ?thesis
  proof (intro conjI impI)
    assume p: "Kind g0 = k @ ''List'' \<and> IsListType obj"
    show "gvk (heap w' ! r) = g0\<lparr>Kind := k\<rparr>" using h A[OF p] by simp
    show "clientForGVK L c b (g0\<lparr>Kind := k\<rparr>) = Inr (Interface (heap w' ! r))"
      using h cl A[OF p] by simp
    show "RESTMappingFor L (mapper c) (Group g0, k) (Version g0) = Inr (mapping (heap w' ! r))"
      using h m A[OF p] by (simp add: GroupKind_def)
  next
    assume p: "(\<nexists>k'. Kind g0 = k' @ ''List'') \<or> \<not> IsListType obj"
    show "gvk (heap w' ! r) = g0" using h B[OF p] by simp
    show "clientForGVK L c b g0 = Inr (Interface (heap w' ! r))" using h cl B[OF p] by simp
    show "RESTMappingFor L (mapper c) (Group g0, Kind g0) (Version g0) =
              Inr (mapping (heap w' ! r))"
      using h m B[OF p] by (simp add: GroupKind_def)
  qed
qed

lemma newResource_dynWidgetList:
  "newResource stubs cache0 dynWidgetList True world0 =
     (Inr 0,
      \<lparr>heap = [\<lparr>Interface = ''dynamic'', gvk = widgetGVK,
                 mapping = \<lparr>Resource = ''widgets'', Scope = \<lparr>Name = ''namespace''\<rparr>\<rparr>\<rparr>],
       calls = [Call_GVKForObject dynWidgetList,
                Call_RESTUnstructuredClientForGVK widgetGVK,
                Call_RESTMapping (''apps'', ''Widget'') ''v1'']\<rparr>)"
  by (simp add: newResource_def stubs_def cache0_def dynWidgetList_def world0_def widgetGVK_def
      widgetListGVK_def itemGVK_def HasSuffix_def clientForGVK_def GroupKind_def called_def
      alloc_def Let_def)

theorem newResource_list_item_kind_witness:
  "GVKForObject stubs dynWidgetList (scheme cache0) = Inr widgetListGVK \<and>
   Kind widgetListGVK = ''Widget'' @ ''List'' \<and> IsListType dynWidgetList \<and>
   fst (newResource stubs cache0 dynWidgetList True world0) = Inr 0 \<and>
   Kind (gvk (heap (snd (newResource stubs cache0 dynWidgetList True world0)) ! 0)) = ''Widget'' \<and>
   resource (heap (snd (newResource stubs cache0 dynWidgetList True world0)) ! 0) = ''widgets''"
proof -
  have g: "GVKForObject stubs dynWidgetList (scheme cache0) = Inr widgetListGVK"
    by (simp add: stubs_def dynWidgetList_def)
  note t = newResource_list_item_kind[OF newResource_dynWidgetList g, of "''Widget''"]
  have k: "Kind widgetListGVK = ''Widget'' @ ''List'' \<and> IsListType dynWidgetList"
    by (simp add: widgetListGVK_def dynWidgetList_def)
  from t k g show ?thesis
    by (simp add: newResource_dynWidgetList resource_def widgetGVK_def)
qed

subsection \<open>Hits\<close>

lemma getResourceByType_hit:
  "resourceByType c (TypeOf obj) = Some r \<Longrightarrow> getResourceByType L c obj w = (Inr r, c, w)"
  by (simp add: getResourceByType_def)

lemma getUnstructuredResourceByGVK_hit:
  "unstructuredResourceByGVK c (ObjectKind obj) = Some r \<Longrightarrow>
     getUnstructuredResourceByGVK L c obj w = (Inr r, c, w)"
  by (simp add: getUnstructuredResourceByGVK_def)

lemma getResourceByType_Inr_cached:
  assumes "getResourceByType L c obj w = (Inr r, c', w')"
  shows "resourceByType c' (TypeOf obj) = Some r"
    and "valid_refs c w \<Longrightarrow> r < length (heap w')"
  using getResourceByType_cases[OF assms] by (auto simp: valid_refs_iff)

lemma getUnstructuredResourceByGVK_Inr_cached:
  assumes "getUnstructuredResourceByGVK L c obj w = (Inr r, c', w')"
  shows "unstructuredResourceByGVK c' (ObjectKind obj) = Some r"
    and "valid_refs c w \<Longrightarrow> r < length (heap w')"
  using getUnstructuredResourceByGVK_cases[OF assms] by (auto simp: valid_refs_iff)

lemma warm_eval:
  "warm =
     (cache0\<lparr>resourceByType := [OtherType ''*v1.Widget'' \<mapsto> 0],
             unstructuredResourceByGVK := [widgetGVK \<mapsto> 1]\<rparr>,
      \<lparr>heap = [widgetMeta, widgetMeta\<lparr>Interface := ''dynamic''\<rparr>],
       calls = [Call_GVKForObject widget, Call_RESTClientForGVK widgetGVK,
                Call_RESTMapping (''apps'', ''Widget'') ''v1'',
                Call_GVKForObject dynWidget, Call_RESTUnstructuredClientForGVK widgetGVK,
                Call_RESTMapping (''apps'', ''Widget'') ''v1'']\<rparr>)"
  by (simp add: warm_def getResource_def getResourceByType_def getResourceByType_Lock_def
      getUnstructuredResourceByGVK_def getUnstructuredResourceByGVK_Lock_def
      newResource_def stubs_def cache0_def widget_def dynWidget_def world0_def widgetGVK_def
      widgetMeta_def itemGVK_def HasSuffix_def clientForGVK_def GroupKind_def called_def
      alloc_def Let_def)

lemma valid_refs_warm: "valid_refs (fst warm) (snd warm)"
  by (simp add: warm_eval valid_refs_iff cache0_def)

text \<open>
  C1. A lookup whose key is in its table returns the pointer stored there and changes
  nothing: the cache, the heap (no record is built) and the log of calls to the collaborators
  stay as they were. Hence, in a cache whose pointers are valid, once a lookup has succeeded
  for a type (or a group/version/kind), every later lookup for the same key, after any
  sequence of requests and whatever the collaborators then answer, returns the same pointer
  to the same record, with the same resource name, scope and group/version/kind.
\<close>

theorem cached_entry_is_returned:
  "(resourceByType c (TypeOf obj) = Some r \<longrightarrow> getResourceByType L c obj w = (Inr r, c, w)) \<and>
   (unstructuredResourceByGVK c (ObjectKind dyn) = Some rg \<longrightarrow>
      getUnstructuredResourceByGVK L c dyn w = (Inr rg, c, w)) \<and>
   (valid_refs c w \<and> getResourceByType L c obj w = (Inr r, c1, w1) \<and>
    run qs (c1, w1) = (c2, w2) \<and> TypeOf obj' = TypeOf obj \<longrightarrow>
      getResourceByType L' c2 obj' w2 = (Inr r, c2, w2) \<and>
      heap w2 ! r = heap w1 ! r \<and>
      resource (heap w2 ! r) = resource (heap w1 ! r) \<and>
      isNamespaced (heap w2 ! r) = isNamespaced (heap w1 ! r) \<and>
      gvk (heap w2 ! r) = gvk (heap w1 ! r)) \<and>
   (valid_refs c w \<and> getUnstructuredResourceByGVK L c dyn w = (Inr rg, c1g, w1g) \<and>
    run qs (c1g, w1g) = (c2g, w2g) \<and> ObjectKind dyn' = ObjectKind dyn \<longrightarrow>
      getUnstructuredResourceByGVK L' c2g dyn' w2g = (Inr rg, c2g, w2g) \<and>
      heap w2g ! rg = heap w1g ! rg \<and>
      resource (heap w2g ! rg) = resource (heap w1g ! rg) \<and>
      isNamespaced (heap w2g ! rg) = isNamespaced (heap w1g ! rg) \<and>
      gvk (heap w2g ! rg) = gvk (heap w1g ! rg))"
proof (intro conjI impI)
  assume "resourceByType c (TypeOf obj) = Some r"
  then show "getResourceByType L c obj w = (Inr r, c, w)" by (rule getResourceByType_hit)
next
  assume "unstructuredResourceByGVK c (ObjectKind dyn) = Some rg"
  then show "getUnstructuredResourceByGVK L c dyn w = (Inr rg, c, w)"
    by (rule getUnstructuredResourceByGVK_hit)
next
  assume a: "valid_refs c w \<and> getResourceByType L c obj w = (Inr r, c1, w1) \<and>
    run qs (c1, w1) = (c2, w2) \<and> TypeOf obj' = TypeOf obj"
  then have first: "getResourceByType L c obj w = (Inr r, c1, w1)"
    and rn: "run qs (c1, w1) = (c2, w2)" and v: "valid_refs c w" by simp_all
  have "resourceByType c2 (TypeOf obj') = Some r"
    using run_keeps_byType[OF getResourceByType_Inr_cached(1)[OF first] rn] a by simp
  then show "getResourceByType L' c2 obj' w2 = (Inr r, c2, w2)" by (rule getResourceByType_hit)
  show h: "heap w2 ! r = heap w1 ! r"
    using run_keeps_heap[OF getResourceByType_Inr_cached(2)[OF first v] rn] by simp
  show "resource (heap w2 ! r) = resource (heap w1 ! r)"
    "isNamespaced (heap w2 ! r) = isNamespaced (heap w1 ! r)"
    "gvk (heap w2 ! r) = gvk (heap w1 ! r)"
    by (simp_all add: h)
next
  assume a: "valid_refs c w \<and> getUnstructuredResourceByGVK L c dyn w = (Inr rg, c1g, w1g) \<and>
    run qs (c1g, w1g) = (c2g, w2g) \<and> ObjectKind dyn' = ObjectKind dyn"
  then have first: "getUnstructuredResourceByGVK L c dyn w = (Inr rg, c1g, w1g)"
    and rn: "run qs (c1g, w1g) = (c2g, w2g)" and v: "valid_refs c w" by simp_all
  have "unstructuredResourceByGVK c2g (ObjectKind dyn') = Some rg"
    using run_keeps_byGVK[OF getUnstructuredResourceByGVK_Inr_cached(1)[OF first] rn] a by simp
  then show "getUnstructuredResourceByGVK L' c2g dyn' w2g = (Inr rg, c2g, w2g)"
    by (rule getUnstructuredResourceByGVK_hit)
  show h: "heap w2g ! rg = heap w1g ! rg"
    using run_keeps_heap[OF getUnstructuredResourceByGVK_Inr_cached(2)[OF first v] rn] by simp
  show "resource (heap w2g ! rg) = resource (heap w1g ! rg)"
    "isNamespaced (heap w2g ! rg) = isNamespaced (heap w1g ! rg)"
    "gvk (heap w2g ! rg) = gvk (heap w1g ! rg)"
    by (simp_all add: h)
qed

theorem cached_entry_is_returned_witness:
  "valid_refs (fst warm) (snd warm) \<and>
   resourceByType (fst warm) (TypeOf widget) = Some 0 \<and>
   unstructuredResourceByGVK (fst warm) (ObjectKind dynWidget) = Some 1 \<and>
   getResourceByType stubs (fst warm) widget (snd warm) = (Inr 0, warm) \<and>
   getUnstructuredResourceByGVK stubs (fst warm) dynWidget (snd warm) = (Inr 1, warm) \<and>
   getResourceByType broken (fst later) widget (snd later) = (Inr 0, later) \<and>
   getUnstructuredResourceByGVK broken (fst later) dynWidget (snd later) = (Inr 1, later) \<and>
   heap (snd later) ! 0 = widgetMeta \<and>
   resource (heap (snd later) ! 1) = ''widgets''"
proof -
  have t: "resourceByType (fst warm) (TypeOf widget) = Some 0"
    and g: "unstructuredResourceByGVK (fst warm) (ObjectKind dynWidget) = Some 1"
    by (simp_all add: warm_eval widget_def dynWidget_def)
  have r: "run [(stubs, Req_getObjMeta dynWidgetList), (broken, Req_getResource widget)]
             (fst warm, snd warm) = (fst later, snd later)"
    by (simp add: later_def)
  have h: "heap (snd warm) ! 0 = widgetMeta"
    "resource (heap (snd warm) ! 1) = ''widgets''"
    by (simp_all add: warm_eval resource_def widgetMeta_def)
  from cached_entry_is_returned[of "fst warm" widget 0 stubs "snd warm" dynWidget 1
      "fst warm" "snd warm"
      "[(stubs, Req_getObjMeta dynWidgetList), (broken, Req_getResource widget)]"
      "fst later" "snd later" widget broken "fst warm" "snd warm" "fst later" "snd later"
      dynWidget]
    t g r h valid_refs_warm
  show ?thesis by simp
qed

subsection \<open>Misses\<close>

lemma getResourceByType_miss:
  "resourceByType c (TypeOf obj) = None \<Longrightarrow>
     getResourceByType L c obj w = getResourceByType_Lock L c obj w"
  by (simp add: getResourceByType_def)

lemma getUnstructuredResourceByGVK_miss:
  "unstructuredResourceByGVK c (ObjectKind obj) = None \<Longrightarrow>
     getUnstructuredResourceByGVK L c obj w = getUnstructuredResourceByGVK_Lock L c obj w"
  by (simp add: getUnstructuredResourceByGVK_def)

lemma getResourceByType_Lock_Inr:
  "newResource L c obj False w = (Inr r, w') \<Longrightarrow>
     getResourceByType_Lock L c obj w =
       (Inr r, c\<lparr>resourceByType := (resourceByType c)(TypeOf obj \<mapsto> r)\<rparr>, w')"
  by (simp add: getResourceByType_Lock_def)

lemma getUnstructuredResourceByGVK_Lock_Inr:
  "newResource L c obj True w = (Inr r, w') \<Longrightarrow>
     getUnstructuredResourceByGVK_Lock L c obj w =
       (Inr r,
        c\<lparr>unstructuredResourceByGVK := (unstructuredResourceByGVK c)(ObjectKind obj \<mapsto> r)\<rparr>,
        w')"
  by (simp add: getUnstructuredResourceByGVK_Lock_def)

lemma getResourceByType_Lock_Inl:
  "newResource L c obj False w = (Inl e, w') \<Longrightarrow>
     getResourceByType_Lock L c obj w = (Inl e, c, w')"
  by (simp add: getResourceByType_Lock_def)

lemma getUnstructuredResourceByGVK_Lock_Inl:
  "newResource L c obj True w = (Inl e, w') \<Longrightarrow>
     getUnstructuredResourceByGVK_Lock L c obj w = (Inl e, c, w')"
  by (simp add: getUnstructuredResourceByGVK_Lock_def)

subsection \<open>Failures\<close>

lemma getResourceByType_Inl:
  assumes "getResourceByType L c obj w = (Inl e, c', w')"
  shows "c' = c \<and> heap w' = heap w \<and> resourceByType c (TypeOf obj) = None \<and>
         newResource L c obj False w = (Inl e, w')"
proof -
  from getResourceByType_cases[OF assms]
  have n: "resourceByType c (TypeOf obj) = None" and c: "c' = c" and h: "heap w' = heap w"
    by auto
  from assms n have "getResourceByType_Lock L c obj w = (Inl e, c', w')"
    by (simp add: getResourceByType_miss)
  then have "newResource L c obj False w = (Inl e, w')"
    by (auto simp: getResourceByType_Lock_def Let_def split: prod.splits sum.splits)
  with n c h show ?thesis by simp
qed

lemma getUnstructuredResourceByGVK_Inl:
  assumes "getUnstructuredResourceByGVK L c obj w = (Inl e, c', w')"
  shows "c' = c \<and> heap w' = heap w \<and> unstructuredResourceByGVK c (ObjectKind obj) = None \<and>
         newResource L c obj True w = (Inl e, w')"
proof -
  from getUnstructuredResourceByGVK_cases[OF assms]
  have n: "unstructuredResourceByGVK c (ObjectKind obj) = None" and c: "c' = c"
    and h: "heap w' = heap w"
    by auto
  from assms n have "getUnstructuredResourceByGVK_Lock L c obj w = (Inl e, c', w')"
    by (simp add: getUnstructuredResourceByGVK_miss)
  then have "newResource L c obj True w = (Inl e, w')"
    by (auto simp: getUnstructuredResourceByGVK_Lock_def split: prod.splits sum.splits)
  with n c h show ?thesis by simp
qed

lemma getResource_Inl:
  assumes "getResource L c obj w = (Inl e, c', w')"
  shows "c' = c \<and> heap w' = heap w"
proof (cases "TypeOf obj = PtrUnstructured \<or> TypeOf obj = PtrUnstructuredList")
  case True
  with assms have "getUnstructuredResourceByGVK L c obj w = (Inl e, c', w')"
    by (simp add: getResource_def Let_def)
  from getUnstructuredResourceByGVK_Inl[OF this] show ?thesis by simp
next
  case False
  with assms have "getResourceByType L c obj w = (Inl e, c', w')"
    by (simp add: getResource_def Let_def)
  from getResourceByType_Inl[OF this] show ?thesis by simp
qed

lemmas cache_defs =
  getResource_def getResourceByType_def getResourceByType_Lock_def
  getUnstructuredResourceByGVK_def getUnstructuredResourceByGVK_Lock_def getObjMeta_def
  newResource_def itemGVK_def HasSuffix_def clientForGVK_def GroupKind_def called_def
  alloc_def Let_def

lemmas example_defs =
  stubs_def broken_def noClient_def cache0_def world0_def widgetGVK_def widgetListGVK_def
  widget_def widget2_def dynWidget_def dynWidgetList_def gizmo_def dynGizmo_def
  widgetMeta_def

lemma broken_widget:
  "getResourceByType broken cache0 widget world0 =
     (Inl ''no kind is registered'', cache0, world0\<lparr>calls := [Call_GVKForObject widget]\<rparr>)"
  "getResource broken cache0 widget world0 =
     (Inl ''no kind is registered'', cache0, world0\<lparr>calls := [Call_GVKForObject widget]\<rparr>)"
  "getUnstructuredResourceByGVK broken cache0 dynWidget world0 =
     (Inl ''no kind is registered'', cache0, world0\<lparr>calls := [Call_GVKForObject dynWidget]\<rparr>)"
  by (simp_all add: cache_defs example_defs)

lemma retry_widget:
  "fst (newResource stubs cache0 widget False (world0\<lparr>calls := [Call_GVKForObject widget]\<rparr>)) =
     Inr 0"
  "fst (newResource stubs cache0 dynWidget True (world0\<lparr>calls := [Call_GVKForObject dynWidget]\<rparr>)) =
     Inr 0"
  by (simp_all add: cache_defs example_defs)

subsection \<open>Dispatch\<close>

lemma getResourceByType_cache:
  "fst (snd (getResourceByType L c obj w)) = c \<or>
   fst (snd (getResourceByType L c obj w)) =
     c\<lparr>resourceByType := (resourceByType c)(TypeOf obj \<mapsto> length (heap w))\<rparr>"
  using getResourceByType_cases[of L c obj w "fst (getResourceByType L c obj w)"
      "fst (snd (getResourceByType L c obj w))" "snd (snd (getResourceByType L c obj w))"]
  by auto

lemma getUnstructuredResourceByGVK_cache:
  "fst (snd (getUnstructuredResourceByGVK L c obj w)) = c \<or>
   fst (snd (getUnstructuredResourceByGVK L c obj w)) =
     c\<lparr>unstructuredResourceByGVK :=
         (unstructuredResourceByGVK c)(ObjectKind obj \<mapsto> length (heap w))\<rparr>"
  using getUnstructuredResourceByGVK_cases[of L c obj w
      "fst (getUnstructuredResourceByGVK L c obj w)"
      "fst (snd (getUnstructuredResourceByGVK L c obj w))"
      "snd (snd (getUnstructuredResourceByGVK L c obj w))"]
  by auto

text \<open>
  C4. \<open>getResource\<close> is the lookup by group/version/kind when the dynamic type of the
  object is \<open>*unstructured.Unstructured\<close> or \<open>*unstructured.UnstructuredList\<close>, and the
  lookup by type for every other object. In the first case the only entry of the cache that
  can change is the one of the by-GVK table under the declared group/version/kind of the
  object; in the second, the one of the by-type table under the type of the object.
\<close>

theorem getResource_dispatch:
  "(TypeOf obj = PtrUnstructured \<or> TypeOf obj = PtrUnstructuredList \<longrightarrow>
      getResource L c obj w = getUnstructuredResourceByGVK L c obj w \<and>
      (fst (snd (getResource L c obj w)) = c \<or>
       fst (snd (getResource L c obj w)) =
         c\<lparr>unstructuredResourceByGVK :=
             (unstructuredResourceByGVK c)(ObjectKind obj \<mapsto> length (heap w))\<rparr>)) \<and>
   (TypeOf obj \<noteq> PtrUnstructured \<and> TypeOf obj \<noteq> PtrUnstructuredList \<longrightarrow>
      getResource L c obj w = getResourceByType L c obj w \<and>
      (fst (snd (getResource L c obj w)) = c \<or>
       fst (snd (getResource L c obj w)) =
         c\<lparr>resourceByType := (resourceByType c)(TypeOf obj \<mapsto> length (heap w))\<rparr>))"
proof (intro conjI impI)
  assume a: "TypeOf obj = PtrUnstructured \<or> TypeOf obj = PtrUnstructuredList"
  then show e: "getResource L c obj w = getUnstructuredResourceByGVK L c obj w"
    by (simp add: getResource_def Let_def)
  show "fst (snd (getResource L c obj w)) = c \<or>
       fst (snd (getResource L c obj w)) =
         c\<lparr>unstructuredResourceByGVK :=
             (unstructuredResourceByGVK c)(ObjectKind obj \<mapsto> length (heap w))\<rparr>"
    unfolding e by (rule getUnstructuredResourceByGVK_cache)
next
  assume a: "TypeOf obj \<noteq> PtrUnstructured \<and> TypeOf obj \<noteq> PtrUnstructuredList"
  then show e: "getResource L c obj w = getResourceByType L c obj w"
    by (simp add: getResource_def Let_def)
  show "fst (snd (getResource L c obj w)) = c \<or>
       fst (snd (getResource L c obj w)) =
         c\<lparr>resourceByType := (resourceByType c)(TypeOf obj \<mapsto> length (heap w))\<rparr>"
    unfolding e by (rule getResourceByType_cache)
qed

theorem getResource_dispatch_witness:
  "TypeOf dynWidget = PtrUnstructured \<and> TypeOf dynWidgetList = PtrUnstructuredList \<and>
   TypeOf widget \<noteq> PtrUnstructured \<and> TypeOf widget \<noteq> PtrUnstructuredList \<and>
   getResource stubs cache0 dynWidget world0 =
     getUnstructuredResourceByGVK stubs cache0 dynWidget world0 \<and>
   getResource stubs cache0 dynWidgetList world0 =
     getUnstructuredResourceByGVK stubs cache0 dynWidgetList world0 \<and>
   getResource stubs cache0 widget world0 = getResourceByType stubs cache0 widget world0 \<and>
   fst (snd (getResource stubs cache0 dynWidgetList world0)) =
     cache0\<lparr>unstructuredResourceByGVK := [widgetListGVK \<mapsto> 0]\<rparr> \<and>
   fst (snd (getResource stubs cache0 widget world0)) =
     cache0\<lparr>resourceByType := [OtherType ''*v1.Widget'' \<mapsto> 0]\<rparr>"
proof -
  have t: "TypeOf dynWidget = PtrUnstructured" "TypeOf dynWidgetList = PtrUnstructuredList"
    "TypeOf widget \<noteq> PtrUnstructured \<and> TypeOf widget \<noteq> PtrUnstructuredList"
    by (simp_all add: example_defs)
  have v: "fst (snd (getUnstructuredResourceByGVK stubs cache0 dynWidgetList world0)) =
      cache0\<lparr>unstructuredResourceByGVK := [widgetListGVK \<mapsto> 0]\<rparr>"
    "fst (snd (getResourceByType stubs cache0 widget world0)) =
      cache0\<lparr>resourceByType := [OtherType ''*v1.Widget'' \<mapsto> 0]\<rparr>"
    by (simp_all add: cache_defs example_defs)
  from getResource_dispatch[of dynWidget stubs cache0 world0]
    getResource_dispatch[of dynWidgetList stubs cache0 world0]
    getResource_dispatch[of widget stubs cache0 world0] t v
  show ?thesis by simp
qed

subsection \<open>Object metadata\<close>

lemma getResource_Inr_cached:
  assumes "getResource L c obj w = (Inr r, c', w')"
  shows "resourceByType c' (TypeOf obj) = Some r \<or>
         unstructuredResourceByGVK c' (ObjectKind obj) = Some r"
proof (cases "TypeOf obj = PtrUnstructured \<or> TypeOf obj = PtrUnstructuredList")
  case True
  with assms have "getUnstructuredResourceByGVK L c obj w = (Inr r, c', w')"
    by (simp add: getResource_def Let_def)
  from getUnstructuredResourceByGVK_Inr_cached(1)[OF this] show ?thesis by simp
next
  case False
  with assms have "getResourceByType L c obj w = (Inr r, c', w')"
    by (simp add: getResource_def Let_def)
  from getResourceByType_Inr_cached(1)[OF this] show ?thesis by simp
qed

text \<open>
  C8. \<open>getObjMeta\<close> calls \<open>getResource\<close> first. If that fails, it returns the same error.
  Otherwise it asks \<open>meta.Accessor\<close> for the accessor of the object: if that fails it
  returns the accessor's error, and if not it returns an \<open>objMeta\<close> made of the pointer
  that \<open>getResource\<close> returned, which one of the two tables holds under the key of the
  object, and of the accessor. In every case the cache and the world it leaves are the ones
  \<open>getResource\<close> left: the \<open>objMeta\<close> is stored nowhere.
\<close>

theorem getObjMeta_composes:
  "(getResource L c obj w = (Inl e, c', w') \<longrightarrow> getObjMeta L c obj w = (Inl e, c', w')) \<and>
   (getResource L c obj w = (Inr r, c', w') \<and> Accessor obj = Inl e \<longrightarrow>
      getObjMeta L c obj w = (Inl e, c', w')) \<and>
   (getResource L c obj w = (Inr r, c', w') \<and> Accessor obj = Inr m \<longrightarrow>
      getObjMeta L c obj w = (Inr \<lparr>resourceMeta = r, Object = m\<rparr>, c', w') \<and>
      (resourceByType c' (TypeOf obj) = Some r \<or>
       unstructuredResourceByGVK c' (ObjectKind obj) = Some r)) \<and>
   snd (getObjMeta L c obj w) = snd (getResource L c obj w)"
proof (intro conjI impI)
  show "snd (getObjMeta L c obj w) = snd (getResource L c obj w)" by (rule getObjMeta_state)
qed (use getResource_Inr_cached[of L c obj w r c' w'] in \<open>auto simp: getObjMeta_def\<close>)

theorem getObjMeta_composes_witness:
  "getResource broken cache0 widget world0 =
     (Inl ''no kind is registered'', cache0, world0\<lparr>calls := [Call_GVKForObject widget]\<rparr>) \<and>
   getObjMeta broken cache0 widget world0 =
     (Inl ''no kind is registered'', cache0, world0\<lparr>calls := [Call_GVKForObject widget]\<rparr>) \<and>
   fst (getResource stubs cache0 dynWidgetList world0) = Inr 0 \<and>
   Accessor dynWidgetList = Inl ''object does not implement the Object interfaces'' \<and>
   getObjMeta stubs cache0 dynWidgetList world0 =
     (Inl ''object does not implement the Object interfaces'',
      snd (getResource stubs cache0 dynWidgetList world0)) \<and>
   fst (getResource stubs cache0 widget world0) = Inr 0 \<and>
   Accessor widget = Inr ''w1'' \<and>
   getObjMeta stubs cache0 widget world0 =
     (Inr \<lparr>resourceMeta = 0, Object = ''w1''\<rparr>, snd (getResource stubs cache0 widget world0)) \<and>
   resourceByType (fst (snd (getResource stubs cache0 widget world0))) (TypeOf widget) = Some 0"
proof -
  have f: "fst (getResource stubs cache0 dynWidgetList world0) = Inr 0"
    "fst (getResource stubs cache0 widget world0) = Inr 0"
    by (simp_all add: cache_defs example_defs)
  then have p: "getResource stubs cache0 dynWidgetList world0 =
      (Inr 0, fst (snd (getResource stubs cache0 dynWidgetList world0)),
       snd (snd (getResource stubs cache0 dynWidgetList world0)))"
    "getResource stubs cache0 widget world0 =
      (Inr 0, fst (snd (getResource stubs cache0 widget world0)),
       snd (snd (getResource stubs cache0 widget world0)))"
    by (metis prod.collapse)+
  have a: "Accessor dynWidgetList = Inl ''object does not implement the Object interfaces''"
    "Accessor widget = Inr ''w1''"
    by (simp_all add: example_defs)
  have t: "resourceByType (fst (snd (getResource stubs cache0 widget world0))) (TypeOf widget) =
      Some 0"
    by (simp add: cache_defs example_defs)
  note A = getObjMeta_composes[where L = broken and c = cache0 and obj = widget and w = world0
      and e = "''no kind is registered''" and c' = cache0
      and w' = "world0\<lparr>calls := [Call_GVKForObject widget]\<rparr>"]
  note B = getObjMeta_composes[where L = stubs and c = cache0 and obj = dynWidgetList
      and w = world0 and e = "''object does not implement the Object interfaces''" and r = 0
      and c' = "fst (snd (getResource stubs cache0 dynWidgetList world0))"
      and w' = "snd (snd (getResource stubs cache0 dynWidgetList world0))"]
  note C = getObjMeta_composes[where L = stubs and c = cache0 and obj = widget
      and w = world0 and r = 0 and m = "''w1''"
      and c' = "fst (snd (getResource stubs cache0 widget world0))"
      and w' = "snd (snd (getResource stubs cache0 widget world0))"]
  have 1: "getObjMeta broken cache0 widget world0 =
     (Inl ''no kind is registered'', cache0, world0\<lparr>calls := [Call_GVKForObject widget]\<rparr>)"
    using A broken_widget(2) by blast
  have 2: "getObjMeta stubs cache0 dynWidgetList world0 =
     (Inl ''object does not implement the Object interfaces'',
      snd (getResource stubs cache0 dynWidgetList world0))"
    using B p(1) a(1) by simp
  have 3: "getObjMeta stubs cache0 widget world0 =
     (Inr \<lparr>resourceMeta = 0, Object = ''w1''\<rparr>, snd (getResource stubs cache0 widget world0))"
    using C p(2) a(2) by simp
  from 1 2 3 f a t broken_widget(2) show ?thesis by blast
qed

subsection \<open>The two tables\<close>

lemma newResource_frame_byType:
  "newResource L (c\<lparr>resourceByType := t\<rparr>) obj b w = newResource L c obj b w"
  by (simp add: newResource_def clientForGVK_def Let_def split: sum.splits)

lemma newResource_frame_byGVK:
  "newResource L (c\<lparr>unstructuredResourceByGVK := u\<rparr>) obj b w = newResource L c obj b w"
  by (simp add: newResource_def clientForGVK_def Let_def split: sum.splits)

lemma getResourceByType_frame:
  assumes "getResourceByType L c obj w = (res, c', w')"
  shows "unstructuredResourceByGVK c' = unstructuredResourceByGVK c"
    and "getResourceByType L (c\<lparr>unstructuredResourceByGVK := m\<rparr>) obj w =
           (res, c'\<lparr>unstructuredResourceByGVK := m\<rparr>, w')"
proof -
  from getResourceByType_cases[OF assms]
  show "unstructuredResourceByGVK c' = unstructuredResourceByGVK c" by auto
  from assms
  show "getResourceByType L (c\<lparr>unstructuredResourceByGVK := m\<rparr>) obj w =
           (res, c'\<lparr>unstructuredResourceByGVK := m\<rparr>, w')"
    by (auto simp: getResourceByType_def getResourceByType_Lock_def Let_def
        newResource_frame_byGVK split: option.splits prod.splits sum.splits)
qed

lemma getUnstructuredResourceByGVK_frame:
  assumes "getUnstructuredResourceByGVK L c obj w = (res, c', w')"
  shows "resourceByType c' = resourceByType c"
    and "getUnstructuredResourceByGVK L (c\<lparr>resourceByType := t\<rparr>) obj w =
           (res, c'\<lparr>resourceByType := t\<rparr>, w')"
proof -
  from getUnstructuredResourceByGVK_cases[OF assms]
  show "resourceByType c' = resourceByType c" by auto
  from assms
  show "getUnstructuredResourceByGVK L (c\<lparr>resourceByType := t\<rparr>) obj w =
           (res, c'\<lparr>resourceByType := t\<rparr>, w')"
    by (auto simp: getUnstructuredResourceByGVK_def getUnstructuredResourceByGVK_Lock_def
        newResource_frame_byType split: option.splits prod.splits sum.splits)
qed

lemma getResourceByType_fresh:
  assumes "valid_refs c w" and "resourceByType c (TypeOf obj) = None"
    and "getResourceByType L c obj w = (Inr r, c', w')"
  shows "r < length (heap w') \<and> r \<notin> ran (unstructuredResourceByGVK c') \<and>
         resourceByType c' (TypeOf obj) = Some r"
  using getResourceByType_cases[OF assms(3)] assms(1,2)
  by (auto simp: valid_refs_iff ran_def)

lemma getUnstructuredResourceByGVK_fresh:
  assumes "valid_refs c w" and "unstructuredResourceByGVK c (ObjectKind obj) = None"
    and "getUnstructuredResourceByGVK L c obj w = (Inr r, c', w')"
  shows "r < length (heap w') \<and> r \<notin> ran (resourceByType c') \<and>
         unstructuredResourceByGVK c' (ObjectKind obj) = Some r"
  using getUnstructuredResourceByGVK_cases[OF assms(3)] assms(1,2)
  by (auto simp: valid_refs_iff ran_def)

text \<open>
  C6. The lookup by type neither changes nor reads the by-GVK table: it leaves that table as
  it was, and with any other by-GVK table in its place it returns the same result, the same
  by-type table and the same world. The same holds for the lookup by group/version/kind and
  the by-type table. In a cache whose pointers are valid, over every sequence of requests:
  if no record is in both tables at the start then none is at the end, a record inserted by
  the type path stays in the by-type table and is never the answer of a probe of the by-GVK
  table, and the other way round.
\<close>

theorem tables_are_independent:
  "(getResourceByType L c obj w = (res, c', w') \<longrightarrow>
      unstructuredResourceByGVK c' = unstructuredResourceByGVK c \<and>
      getResourceByType L (c\<lparr>unstructuredResourceByGVK := m\<rparr>) obj w =
        (res, c'\<lparr>unstructuredResourceByGVK := m\<rparr>, w')) \<and>
   (getUnstructuredResourceByGVK L c dyn w = (resg, cg, wg) \<longrightarrow>
      resourceByType cg = resourceByType c \<and>
      getUnstructuredResourceByGVK L (c\<lparr>resourceByType := t\<rparr>) dyn w =
        (resg, cg\<lparr>resourceByType := t\<rparr>, wg)) \<and>
   (valid_refs c w \<and> ran (resourceByType c) \<inter> ran (unstructuredResourceByGVK c) = {} \<and>
    run qs0 (c, w) = (c0, w0) \<longrightarrow>
      ran (resourceByType c0) \<inter> ran (unstructuredResourceByGVK c0) = {}) \<and>
   (valid_refs c w \<and> resourceByType c (TypeOf obj) = None \<and>
    getResourceByType L c obj w = (Inr r, c', w') \<and> run qs (c', w') = (c2, w2) \<longrightarrow>
      resourceByType c2 (TypeOf obj) = Some r \<and> unstructuredResourceByGVK c2 k \<noteq> Some r) \<and>
   (valid_refs c w \<and> unstructuredResourceByGVK c (ObjectKind dyn) = None \<and>
    getUnstructuredResourceByGVK L c dyn w = (Inr rg, cg, wg) \<and>
    run qsg (cg, wg) = (c2g, w2g) \<longrightarrow>
      unstructuredResourceByGVK c2g (ObjectKind dyn) = Some rg \<and>
      resourceByType c2g kt \<noteq> Some rg)"
proof (intro conjI impI)
  assume a: "getResourceByType L c obj w = (res, c', w')"
  show "unstructuredResourceByGVK c' = unstructuredResourceByGVK c"
    by (rule getResourceByType_frame(1)[OF a])
  show "getResourceByType L (c\<lparr>unstructuredResourceByGVK := m\<rparr>) obj w =
        (res, c'\<lparr>unstructuredResourceByGVK := m\<rparr>, w')"
    by (rule getResourceByType_frame(2)[OF a])
next
  assume a: "getUnstructuredResourceByGVK L c dyn w = (resg, cg, wg)"
  show "resourceByType cg = resourceByType c"
    by (rule getUnstructuredResourceByGVK_frame(1)[OF a])
  show "getUnstructuredResourceByGVK L (c\<lparr>resourceByType := t\<rparr>) dyn w =
        (resg, cg\<lparr>resourceByType := t\<rparr>, wg)"
    by (rule getUnstructuredResourceByGVK_frame(2)[OF a])
next
  assume "valid_refs c w \<and> ran (resourceByType c) \<inter> ran (unstructuredResourceByGVK c) = {} \<and>
    run qs0 (c, w) = (c0, w0)"
  then show "ran (resourceByType c0) \<inter> ran (unstructuredResourceByGVK c0) = {}"
    using run_disjoint[of c w qs0 c0 w0] by blast
next
  assume a: "valid_refs c w \<and> resourceByType c (TypeOf obj) = None \<and>
    getResourceByType L c obj w = (Inr r, c', w') \<and> run qs (c', w') = (c2, w2)"
  then have f: "r < length (heap w') \<and> r \<notin> ran (unstructuredResourceByGVK c') \<and>
         resourceByType c' (TypeOf obj) = Some r"
    using getResourceByType_fresh[of c w obj L r c' w'] by blast
  from a have rn: "run qs (c', w') = (c2, w2)" by simp
  show "resourceByType c2 (TypeOf obj) = Some r"
    using run_keeps_byType[OF _ rn] f by blast
  have "r \<notin> ran (unstructuredResourceByGVK c2)"
    using run_not_in_byGVK[OF _ _ rn] f by blast
  then show "unstructuredResourceByGVK c2 k \<noteq> Some r" by (auto simp: ran_def)
next
  assume a: "valid_refs c w \<and> unstructuredResourceByGVK c (ObjectKind dyn) = None \<and>
    getUnstructuredResourceByGVK L c dyn w = (Inr rg, cg, wg) \<and>
    run qsg (cg, wg) = (c2g, w2g)"
  then have f: "rg < length (heap wg) \<and> rg \<notin> ran (resourceByType cg) \<and>
         unstructuredResourceByGVK cg (ObjectKind dyn) = Some rg"
    using getUnstructuredResourceByGVK_fresh[of c w dyn L rg cg wg] by blast
  from a have rn: "run qsg (cg, wg) = (c2g, w2g)" by simp
  show "unstructuredResourceByGVK c2g (ObjectKind dyn) = Some rg"
    using run_keeps_byGVK[OF _ rn] f by blast
  have "rg \<notin> ran (resourceByType c2g)"
    using run_not_in_byType[OF _ _ rn] f by blast
  then show "resourceByType c2g kt \<noteq> Some rg" by (auto simp: ran_def)
qed

lemma valid_refs_cache0: "valid_refs cache0 world0"
  by (simp add: valid_refs_iff cache0_def)

theorem tables_are_independent_witness:
  "valid_refs cache0 world0 \<and>
   ran (resourceByType cache0) \<inter> ran (unstructuredResourceByGVK cache0) = {} \<and>
   resourceByType cache0 (TypeOf widget) = None \<and>
   unstructuredResourceByGVK cache0 (ObjectKind dynWidget) = None \<and>
   fst (getResourceByType stubs cache0 widget world0) = Inr 0 \<and>
   fst (getUnstructuredResourceByGVK stubs cache0 dynWidget world0) = Inr 0 \<and>
   getResourceByType stubs (cache0\<lparr>unstructuredResourceByGVK := [widgetGVK \<mapsto> 7]\<rparr>) widget world0 =
     (Inr 0,
      fst (snd (getResourceByType stubs cache0 widget world0))
        \<lparr>unstructuredResourceByGVK := [widgetGVK \<mapsto> 7]\<rparr>,
      snd (snd (getResourceByType stubs cache0 widget world0))) \<and>
   getUnstructuredResourceByGVK stubs (cache0\<lparr>resourceByType := [TypeOf widget \<mapsto> 7]\<rparr>)
       dynWidget world0 =
     (Inr 0,
      fst (snd (getUnstructuredResourceByGVK stubs cache0 dynWidget world0))
        \<lparr>resourceByType := [TypeOf widget \<mapsto> 7]\<rparr>,
      snd (snd (getUnstructuredResourceByGVK stubs cache0 dynWidget world0))) \<and>
   run [(stubs, Req_getResource dynWidget)] (snd (getResourceByType stubs cache0 widget world0)) =
     warm \<and>
   ran (resourceByType (fst warm)) \<inter> ran (unstructuredResourceByGVK (fst warm)) = {} \<and>
   resourceByType (fst warm) (TypeOf widget) = Some 0 \<and>
   unstructuredResourceByGVK (fst warm) widgetGVK \<noteq> Some 0 \<and>
   unstructuredResourceByGVK
     (fst (run [(stubs, Req_getResource widget)]
            (snd (getUnstructuredResourceByGVK stubs cache0 dynWidget world0))))
     (ObjectKind dynWidget) = Some 0 \<and>
   resourceByType
     (fst (run [(stubs, Req_getResource widget)]
            (snd (getUnstructuredResourceByGVK stubs cache0 dynWidget world0))))
     (TypeOf widget) \<noteq> Some 0"
proof -
  let ?T = "getResourceByType stubs cache0 widget world0"
  let ?G = "getUnstructuredResourceByGVK stubs cache0 dynWidget world0"
  let ?S = "run [(stubs, Req_getResource widget)] (snd ?G)"
  have e: "ran (resourceByType cache0) \<inter> ran (unstructuredResourceByGVK cache0) = {}"
    "resourceByType cache0 (TypeOf widget) = None"
    "unstructuredResourceByGVK cache0 (ObjectKind dynWidget) = None"
    by (simp_all add: cache0_def)
  have f: "fst ?T = Inr 0" "fst ?G = Inr 0"
    by (simp_all add: cache_defs example_defs)
  then have p: "?T = (Inr 0, fst (snd ?T), snd (snd ?T))" "?G = (Inr 0, fst (snd ?G), snd (snd ?G))"
    by (metis prod.collapse)+
  have tw: "TypeOf widget \<noteq> PtrUnstructured \<and> TypeOf widget \<noteq> PtrUnstructuredList"
    by (simp add: widget_def)
  have w: "run [(stubs, Req_getResource widget), (stubs, Req_getResource dynWidget)]
             (cache0, world0) = (fst warm, snd warm)"
    by (simp add: warm_def)
  have w1: "run [(stubs, Req_getResource dynWidget)] (fst (snd ?T), snd (snd ?T)) =
      (fst warm, snd warm)"
    using tw by (simp add: warm_def getResource_def Let_def)
  have s: "run [(stubs, Req_getResource widget)] (fst (snd ?G), snd (snd ?G)) = (fst ?S, snd ?S)"
    by simp
  note A = tables_are_independent[where L = stubs and c = cache0 and w = world0
      and obj = widget and res = "Inr 0" and c' = "fst (snd ?T)" and w' = "snd (snd ?T)"
      and m = "[widgetGVK \<mapsto> 7]"
      and dyn = dynWidget and resg = "Inr 0" and cg = "fst (snd ?G)" and wg = "snd (snd ?G)"
      and t = "[TypeOf widget \<mapsto> 7]"
      and ?qs0.0 = "[(stubs, Req_getResource widget), (stubs, Req_getResource dynWidget)]"
      and ?c0.0 = "fst warm" and ?w0.0 = "snd warm"
      and r = 0 and qs = "[(stubs, Req_getResource dynWidget)]"
      and ?c2.0 = "fst warm" and ?w2.0 = "snd warm" and k = widgetGVK
      and rg = 0 and qsg = "[(stubs, Req_getResource widget)]"
      and ?c2g.0 = "fst ?S" and ?w2g.0 = "snd ?S" and kt = "TypeOf widget"]
  have 1: "getResourceByType stubs (cache0\<lparr>unstructuredResourceByGVK := [widgetGVK \<mapsto> 7]\<rparr>)
      widget world0 =
     (Inr 0, fst (snd ?T)\<lparr>unstructuredResourceByGVK := [widgetGVK \<mapsto> 7]\<rparr>, snd (snd ?T))"
    using A p(1) by blast
  have 2: "getUnstructuredResourceByGVK stubs (cache0\<lparr>resourceByType := [TypeOf widget \<mapsto> 7]\<rparr>)
       dynWidget world0 =
     (Inr 0, fst (snd ?G)\<lparr>resourceByType := [TypeOf widget \<mapsto> 7]\<rparr>, snd (snd ?G))"
    using A p(2) by blast
  have 3: "ran (resourceByType (fst warm)) \<inter> ran (unstructuredResourceByGVK (fst warm)) = {}"
    using A valid_refs_cache0 e(1) w by blast
  have 4: "resourceByType (fst warm) (TypeOf widget) = Some 0 \<and>
      unstructuredResourceByGVK (fst warm) widgetGVK \<noteq> Some 0"
    using A valid_refs_cache0 e(2) p(1) w1 by blast
  have 5: "unstructuredResourceByGVK (fst ?S) (ObjectKind dynWidget) = Some 0 \<and>
      resourceByType (fst ?S) (TypeOf widget) \<noteq> Some 0"
    using A valid_refs_cache0 e(3) p(2) s by blast
  have 6: "run [(stubs, Req_getResource dynWidget)] (snd ?T) = warm"
    using w1 by simp
  from valid_refs_cache0 e f 1 2 3 4 5 6 show ?thesis by blast
qed

subsection \<open>The key on the by-GVK path\<close>

lemma getUnstructuredResourceByGVK_miss_Inr:
  assumes "unstructuredResourceByGVK c (ObjectKind obj) = None"
    and "getUnstructuredResourceByGVK L c obj w = (Inr r, c', w')"
  shows "newResource L c obj True w = (Inr r, w')"
    and "c' = c\<lparr>unstructuredResourceByGVK := (unstructuredResourceByGVK c)(ObjectKind obj \<mapsto> r)\<rparr>"
  using assms
  by (auto simp: getUnstructuredResourceByGVK_def getUnstructuredResourceByGVK_Lock_def
      split: prod.splits sum.splits)

lemma Kind_update_neq: "g\<lparr>Kind := k\<rparr> \<noteq> g" if "Kind g = k @ ''List''"
proof
  assume "g\<lparr>Kind := k\<rparr> = g"
  then have "Kind (g\<lparr>Kind := k\<rparr>) = Kind g" by simp
  with that show False by simp
qed

text \<open>
  C10. On the by-GVK path the key of the new entry is the group/version/kind the object
  declares, while the \<open>gvk\<close> of the record is the one the resolver derived, with the list
  suffix stripped. So when the resolver derives the declared group/version/kind of a
  schema-less list that declares kind \<open>k @ "List"\<close>, the entry is stored under kind
  \<open>k @ "List"\<close> and its record has kind \<open>k\<close>; the entry under kind \<open>k\<close> is untouched, so
  the next lookup of an object declaring kind \<open>k\<close>, if that key was absent, misses, runs the
  construction again and on success stores a second record at another address; for an object
  that is not a list this second record has the same \<open>gvk\<close> as the first.
\<close>

theorem gvk_key_is_declared_kind:
  "(unstructuredResourceByGVK c (ObjectKind obj) = None \<and>
    getUnstructuredResourceByGVK L c obj w = (Inr r, c', w') \<and>
    GVKForObject L obj (scheme c) = Inr g0 \<longrightarrow>
      c' = c\<lparr>unstructuredResourceByGVK := (unstructuredResourceByGVK c)(ObjectKind obj \<mapsto> r)\<rparr> \<and>
      gvk (heap w' ! r) = itemGVK obj g0) \<and>
   (unstructuredResourceByGVK c (ObjectKind obj) = None \<and>
    getUnstructuredResourceByGVK L c obj w = (Inr r, c', w') \<and>
    GVKForObject L obj (scheme c) = Inr (ObjectKind obj) \<and>
    Kind (ObjectKind obj) = k @ ''List'' \<and> IsListType obj \<longrightarrow>
      unstructuredResourceByGVK c' (ObjectKind obj) = Some r \<and>
      Kind (gvk (heap w' ! r)) = k \<and>
      gvk (heap w' ! r) = (ObjectKind obj)\<lparr>Kind := k\<rparr> \<and>
      unstructuredResourceByGVK c' ((ObjectKind obj)\<lparr>Kind := k\<rparr>) =
        unstructuredResourceByGVK c ((ObjectKind obj)\<lparr>Kind := k\<rparr>) \<and>
      (ObjectKind obj2 = (ObjectKind obj)\<lparr>Kind := k\<rparr> \<and>
       unstructuredResourceByGVK c (ObjectKind obj2) = None \<longrightarrow>
         getUnstructuredResourceByGVK L2 c' obj2 w2 =
           getUnstructuredResourceByGVK_Lock L2 c' obj2 w2 \<and>
         (getUnstructuredResourceByGVK L2 c' obj2 w' = (Inr r2, c2, w3) \<longrightarrow>
            r2 \<noteq> r \<and>
            unstructuredResourceByGVK c2 (ObjectKind obj) = Some r \<and>
            unstructuredResourceByGVK c2 (ObjectKind obj2) = Some r2 \<and>
            (\<not> IsListType obj2 \<and> GVKForObject L2 obj2 (scheme c) = Inr (ObjectKind obj2) \<longrightarrow>
               gvk (heap w3 ! r2) = gvk (heap w3 ! r)))))"
proof (intro conjI impI)
  assume a: "unstructuredResourceByGVK c (ObjectKind obj) = None \<and>
    getUnstructuredResourceByGVK L c obj w = (Inr r, c', w') \<and>
    GVKForObject L obj (scheme c) = Inr g0"
  then have n: "newResource L c obj True w = (Inr r, w')"
    and c': "c' = c\<lparr>unstructuredResourceByGVK :=
                     (unstructuredResourceByGVK c)(ObjectKind obj \<mapsto> r)\<rparr>"
    using getUnstructuredResourceByGVK_miss_Inr[of c obj L w r c' w'] by blast+
  show "c' = c\<lparr>unstructuredResourceByGVK := (unstructuredResourceByGVK c)(ObjectKind obj \<mapsto> r)\<rparr>"
    by (rule c')
  from newResource_Inr_record[OF n] a show "gvk (heap w' ! r) = itemGVK obj g0" by auto
next
  assume a: "unstructuredResourceByGVK c (ObjectKind obj) = None \<and>
    getUnstructuredResourceByGVK L c obj w = (Inr r, c', w') \<and>
    GVKForObject L obj (scheme c) = Inr (ObjectKind obj) \<and>
    Kind (ObjectKind obj) = k @ ''List'' \<and> IsListType obj"
  then have n: "newResource L c obj True w = (Inr r, w')"
    and c': "c' = c\<lparr>unstructuredResourceByGVK :=
                     (unstructuredResourceByGVK c)(ObjectKind obj \<mapsto> r)\<rparr>"
    using getUnstructuredResourceByGVK_miss_Inr[of c obj L w r c' w'] by blast+
  from a have i: "itemGVK obj (ObjectKind obj) = (ObjectKind obj)\<lparr>Kind := k\<rparr>"
    by (simp add: itemGVK_list)
  from a have ne: "(ObjectKind obj)\<lparr>Kind := k\<rparr> \<noteq> ObjectKind obj"
    by (simp add: Kind_update_neq)
  from newResource_Inr_heap[OF n] have r: "r = length (heap w)" and lt: "r < length (heap w')"
    by auto
  show s: "unstructuredResourceByGVK c' (ObjectKind obj) = Some r" by (simp add: c')
  show g: "gvk (heap w' ! r) = (ObjectKind obj)\<lparr>Kind := k\<rparr>"
    using newResource_Inr_record[OF n] a i by auto
  then show "Kind (gvk (heap w' ! r)) = k" by simp
  show u: "unstructuredResourceByGVK c' ((ObjectKind obj)\<lparr>Kind := k\<rparr>) =
        unstructuredResourceByGVK c ((ObjectKind obj)\<lparr>Kind := k\<rparr>)"
    using ne by (simp add: c')
  {
    assume b: "ObjectKind obj2 = (ObjectKind obj)\<lparr>Kind := k\<rparr> \<and>
       unstructuredResourceByGVK c (ObjectKind obj2) = None"
    with u have m2: "unstructuredResourceByGVK c' (ObjectKind obj2) = None" by metis
    then show "getUnstructuredResourceByGVK L2 c' obj2 w2 =
           getUnstructuredResourceByGVK_Lock L2 c' obj2 w2"
      by (rule getUnstructuredResourceByGVK_miss)
    {
      assume d: "getUnstructuredResourceByGVK L2 c' obj2 w' = (Inr r2, c2, w3)"
      note n2 = getUnstructuredResourceByGVK_miss_Inr[OF m2 d]
      from newResource_Inr_heap[OF n2(1)] obtain v where r2: "r2 = length (heap w')"
        and h3: "heap w3 = heap w' @ [v]" by auto
      from r2 lt show "r2 \<noteq> r" by simp
      from n2(2) s b ne show "unstructuredResourceByGVK c2 (ObjectKind obj) = Some r" by auto
      from n2(2) show "unstructuredResourceByGVK c2 (ObjectKind obj2) = Some r2" by simp
      {
        assume e: "\<not> IsListType obj2 \<and> GVKForObject L2 obj2 (scheme c) = Inr (ObjectKind obj2)"
        then have "GVKForObject L2 obj2 (scheme c') = Inr (ObjectKind obj2)" by (simp add: c')
        with newResource_Inr_record[OF n2(1)]
        have "gvk (heap w3 ! r2) = itemGVK obj2 (ObjectKind obj2)" by auto
        also have "\<dots> = ObjectKind obj2" using e by (simp add: itemGVK_other)
        also have "\<dots> = gvk (heap w' ! r)" using g b by simp
        also have "\<dots> = gvk (heap w3 ! r)" using h3 lt by (simp add: nth_append)
        finally show "gvk (heap w3 ! r2) = gvk (heap w3 ! r)" .
      }
    }
  }
qed

theorem gvk_key_is_declared_kind_witness:
  "unstructuredResourceByGVK cache0 (ObjectKind dynWidgetList) = None \<and>
   GVKForObject stubs dynWidgetList (scheme cache0) = Inr (ObjectKind dynWidgetList) \<and>
   ObjectKind dynWidgetList = widgetListGVK \<and>
   Kind widgetListGVK = ''Widget'' @ ''List'' \<and> IsListType dynWidgetList \<and>
   fst (getUnstructuredResourceByGVK stubs cache0 dynWidgetList world0) = Inr 0 \<and>
   unstructuredResourceByGVK
     (fst (snd (getUnstructuredResourceByGVK stubs cache0 dynWidgetList world0)))
     widgetListGVK = Some 0 \<and>
   Kind (gvk (heap (snd (snd (getUnstructuredResourceByGVK stubs cache0 dynWidgetList world0)))
               ! 0)) = ''Widget'' \<and>
   ObjectKind dynWidget = widgetGVK \<and> \<not> IsListType dynWidget \<and>
   unstructuredResourceByGVK
     (fst (snd (getUnstructuredResourceByGVK stubs cache0 dynWidgetList world0)))
     widgetGVK = None \<and>
   fst (getUnstructuredResourceByGVK stubs
          (fst (snd (getUnstructuredResourceByGVK stubs cache0 dynWidgetList world0)))
          dynWidget
          (snd (snd (getUnstructuredResourceByGVK stubs cache0 dynWidgetList world0)))) =
     Inr 1 \<and>
   unstructuredResourceByGVK
     (fst (snd (getUnstructuredResourceByGVK stubs
          (fst (snd (getUnstructuredResourceByGVK stubs cache0 dynWidgetList world0)))
          dynWidget
          (snd (snd (getUnstructuredResourceByGVK stubs cache0 dynWidgetList world0))))))
     widgetListGVK = Some 0 \<and>
   unstructuredResourceByGVK
     (fst (snd (getUnstructuredResourceByGVK stubs
          (fst (snd (getUnstructuredResourceByGVK stubs cache0 dynWidgetList world0)))
          dynWidget
          (snd (snd (getUnstructuredResourceByGVK stubs cache0 dynWidgetList world0))))))
     widgetGVK = Some 1 \<and>
   gvk (heap (snd (snd (getUnstructuredResourceByGVK stubs
          (fst (snd (getUnstructuredResourceByGVK stubs cache0 dynWidgetList world0)))
          dynWidget
          (snd (snd (getUnstructuredResourceByGVK stubs cache0 dynWidgetList world0)))))) ! 1) =
   gvk (heap (snd (snd (getUnstructuredResourceByGVK stubs
          (fst (snd (getUnstructuredResourceByGVK stubs cache0 dynWidgetList world0)))
          dynWidget
          (snd (snd (getUnstructuredResourceByGVK stubs cache0 dynWidgetList world0)))))) ! 0)"
proof -
  let ?G = "getUnstructuredResourceByGVK stubs cache0 dynWidgetList world0"
  let ?H = "getUnstructuredResourceByGVK stubs (fst (snd ?G)) dynWidget (snd (snd ?G))"
  have e: "unstructuredResourceByGVK cache0 (ObjectKind dynWidgetList) = None"
    "unstructuredResourceByGVK cache0 (ObjectKind dynWidget) = None"
    by (simp_all add: cache0_def)
  have o: "GVKForObject stubs dynWidgetList (scheme cache0) = Inr (ObjectKind dynWidgetList)"
    "ObjectKind dynWidgetList = widgetListGVK"
    "Kind (ObjectKind dynWidgetList) = ''Widget'' @ ''List''" "IsListType dynWidgetList"
    "ObjectKind dynWidget = (ObjectKind dynWidgetList)\<lparr>Kind := ''Widget''\<rparr>"
    "ObjectKind dynWidget = widgetGVK" "\<not> IsListType dynWidget"
    "GVKForObject stubs dynWidget (scheme cache0) = Inr (ObjectKind dynWidget)"
    by (simp_all add: example_defs)
  have f: "fst ?G = Inr 0" by (simp add: cache_defs example_defs)
  then have p: "?G = (Inr 0, fst (snd ?G), snd (snd ?G))" by (metis prod.collapse)
  note A = gvk_key_is_declared_kind[where c = cache0 and obj = dynWidgetList and L = stubs
      and w = world0 and r = 0 and c' = "fst (snd ?G)" and w' = "snd (snd ?G)"
      and ?g0.0 = "ObjectKind dynWidgetList" and k = "''Widget''" and ?obj2.0 = dynWidget
      and ?L2.0 = stubs and ?w2.0 = "snd (snd ?G)" and ?r2.0 = 1
      and ?c2.0 = "fst (snd ?H)" and ?w3.0 = "snd (snd ?H)"]
  from A e(1) p o(1,3,4)
  have 1: "unstructuredResourceByGVK (fst (snd ?G)) (ObjectKind dynWidgetList) = Some 0"
    and 2: "Kind (gvk (heap (snd (snd ?G)) ! 0)) = ''Widget''"
    and 3: "unstructuredResourceByGVK (fst (snd ?G)) ((ObjectKind dynWidgetList)\<lparr>Kind := ''Widget''\<rparr>) =
      unstructuredResourceByGVK cache0 ((ObjectKind dynWidgetList)\<lparr>Kind := ''Widget''\<rparr>)"
    and 4: "?H = getUnstructuredResourceByGVK_Lock stubs (fst (snd ?G)) dynWidget (snd (snd ?G))"
    using e(2) o(5) by blast+
  have "fst (getUnstructuredResourceByGVK_Lock stubs (fst (snd ?G)) dynWidget (snd (snd ?G))) =
      Inr 1"
    by (simp add: cache_defs example_defs)
  with 4 have h: "fst ?H = Inr 1" by simp
  then have q: "?H = (Inr 1, fst (snd ?H), snd (snd ?H))" by (metis prod.collapse)
  from A e p o q
  have 5: "unstructuredResourceByGVK (fst (snd ?H)) (ObjectKind dynWidgetList) = Some 0"
    and 6: "unstructuredResourceByGVK (fst (snd ?H)) (ObjectKind dynWidget) = Some 1"
    and 7: "gvk (heap (snd (snd ?H)) ! 1) = gvk (heap (snd (snd ?H)) ! 0)"
    by blast+
  from 3 e(2) o(5) have 8: "unstructuredResourceByGVK (fst (snd ?G)) widgetGVK = None"
    using o(6) by metis
  from e(1) o f 1 2 8 h 5 6 7 show ?thesis by (simp add: widgetListGVK_def)
qed

subsection \<open>A caller that missed before another inserted\<close>

text \<open>
  The section under the write lock does not look the key up again. A caller that probed
  while the key was absent, and reaches the lock after another caller has stored a record
  under the key, builds a record of its own and stores it over the other one.
\<close>

lemma getResourceByType_Lock_overwrites:
  assumes "newResource L c obj False w = (Inr r, w')"
    and "resourceByType c (TypeOf obj) = Some r0" and "r0 < length (heap w)"
  shows "resourceByType (fst (snd (getResourceByType_Lock L c obj w))) (TypeOf obj) = Some r \<and>
         r \<noteq> r0"
  using newResource_Inr_heap[OF assms(1)] assms(3)
  by (simp add: getResourceByType_Lock_Inr[OF assms(1)])

lemma getUnstructuredResourceByGVK_Lock_overwrites:
  assumes "newResource L c obj True w = (Inr r, w')"
    and "unstructuredResourceByGVK c (ObjectKind obj) = Some r0" and "r0 < length (heap w)"
  shows "unstructuredResourceByGVK (fst (snd (getUnstructuredResourceByGVK_Lock L c obj w)))
           (ObjectKind obj) = Some r \<and>
         r \<noteq> r0"
  using newResource_Inr_heap[OF assms(1)] assms(3)
  by (simp add: getUnstructuredResourceByGVK_Lock_Inr[OF assms(1)])

subsection \<open>What a construction leaves\<close>

lemma newResource_builds:
  assumes "GVKForObject L obj (scheme c) = Inr g0"
    and "clientForGVK L c b (itemGVK obj g0) = Inr cl"
    and "RESTMappingFor L (mapper c) (GroupKind (itemGVK obj g0)) (Version (itemGVK obj g0)) =
           Inr m"
  shows "newResource L c obj b w =
     (Inr (length (heap w)),
      w\<lparr>heap := heap w @ [\<lparr>Interface = cl, gvk = itemGVK obj g0, mapping = m\<rparr>],
        calls := calls w @
          [Call_GVKForObject obj,
           if b then Call_RESTUnstructuredClientForGVK (itemGVK obj g0)
           else Call_RESTClientForGVK (itemGVK obj g0),
           Call_RESTMapping (GroupKind (itemGVK obj g0)) (Version (itemGVK obj g0))]\<rparr>)"
  using assms by (simp add: newResource_def Let_def called_def alloc_def)

lemma newResource_fails_GVK:
  assumes "GVKForObject L obj (scheme c) = Inl e"
  shows "newResource L c obj b w = (Inl e, w\<lparr>calls := calls w @ [Call_GVKForObject obj]\<rparr>)"
  using assms by (simp add: newResource_def Let_def called_def)

lemma newResource_fails_client:
  assumes "GVKForObject L obj (scheme c) = Inr g0"
    and "clientForGVK L c b (itemGVK obj g0) = Inl e"
  shows "newResource L c obj b w =
     (Inl e,
      w\<lparr>calls := calls w @
          [Call_GVKForObject obj,
           if b then Call_RESTUnstructuredClientForGVK (itemGVK obj g0)
           else Call_RESTClientForGVK (itemGVK obj g0)]\<rparr>)"
  using assms by (simp add: newResource_def Let_def called_def)

lemma newResource_fails_mapping:
  assumes "GVKForObject L obj (scheme c) = Inr g0"
    and "clientForGVK L c b (itemGVK obj g0) = Inr cl"
    and "RESTMappingFor L (mapper c) (GroupKind (itemGVK obj g0)) (Version (itemGVK obj g0)) =
           Inl e"
  shows "newResource L c obj b w =
     (Inl e,
      w\<lparr>calls := calls w @
          [Call_GVKForObject obj,
           if b then Call_RESTUnstructuredClientForGVK (itemGVK obj g0)
           else Call_RESTClientForGVK (itemGVK obj g0),
           Call_RESTMapping (GroupKind (itemGVK obj g0)) (Version (itemGVK obj g0))]\<rparr>)"
  using assms by (simp add: newResource_def Let_def called_def)

subsection \<open>A miss builds a record and stores it\<close>

lemma getResourceByType_Lock_builds:
  assumes "GVKForObject L obj (scheme c) = Inr g0"
    and "clientForGVK L c False (itemGVK obj g0) = Inr cl"
    and "RESTMappingFor L (mapper c) (GroupKind (itemGVK obj g0)) (Version (itemGVK obj g0)) =
           Inr m"
  shows "getResourceByType_Lock L c obj w =
     (Inr (length (heap w)),
      c\<lparr>resourceByType := (resourceByType c)(TypeOf obj \<mapsto> length (heap w))\<rparr>,
      w\<lparr>heap := heap w @ [\<lparr>Interface = cl, gvk = itemGVK obj g0, mapping = m\<rparr>],
        calls := calls w @
          [Call_GVKForObject obj, Call_RESTClientForGVK (itemGVK obj g0),
           Call_RESTMapping (GroupKind (itemGVK obj g0)) (Version (itemGVK obj g0))]\<rparr>)"
  using newResource_builds[OF assms, of w] by (simp add: getResourceByType_Lock_def)

lemma getUnstructuredResourceByGVK_Lock_builds:
  assumes "GVKForObject L obj (scheme c) = Inr g0"
    and "clientForGVK L c True (itemGVK obj g0) = Inr cl"
    and "RESTMappingFor L (mapper c) (GroupKind (itemGVK obj g0)) (Version (itemGVK obj g0)) =
           Inr m"
  shows "getUnstructuredResourceByGVK_Lock L c obj w =
     (Inr (length (heap w)),
      c\<lparr>unstructuredResourceByGVK :=
          (unstructuredResourceByGVK c)(ObjectKind obj \<mapsto> length (heap w))\<rparr>,
      w\<lparr>heap := heap w @ [\<lparr>Interface = cl, gvk = itemGVK obj g0, mapping = m\<rparr>],
        calls := calls w @
          [Call_GVKForObject obj, Call_RESTUnstructuredClientForGVK (itemGVK obj g0),
           Call_RESTMapping (GroupKind (itemGVK obj g0)) (Version (itemGVK obj g0))]\<rparr>)"
  using newResource_builds[OF assms, of w] by (simp add: getUnstructuredResourceByGVK_Lock_def)

text \<open>
  C2. A lookup whose key is not in its table runs the section under the write lock. That
  section runs \<open>newResource\<close>, with \<open>isUnstructured\<close> false on the type path and true on
  the other. When the resolver derives a group/version/kind, the client constructor of that
  path returns a client for the item kind and the mapper returns the REST mapping of the
  item kind, the section appends the record made of these three to the heap, after exactly
  these three calls, stores the pointer to it under the key whatever the table holds there
  by then (the table is not read again), and returns that pointer. In general, whenever
  \<open>newResource\<close> succeeds, its pointer is fresh, is stored under the key and is returned.
\<close>

theorem miss_constructs_and_inserts:
  "(resourceByType c (TypeOf obj) = None \<longrightarrow>
      getResourceByType L c obj w = getResourceByType_Lock L c obj w) \<and>
   (unstructuredResourceByGVK c (ObjectKind obj) = None \<longrightarrow>
      getUnstructuredResourceByGVK L c obj w = getUnstructuredResourceByGVK_Lock L c obj w) \<and>
   (GVKForObject L obj (scheme c) = Inr g0 \<and>
    clientForGVK L c False (itemGVK obj g0) = Inr cl \<and>
    RESTMappingFor L (mapper c) (GroupKind (itemGVK obj g0)) (Version (itemGVK obj g0)) = Inr m \<longrightarrow>
      getResourceByType_Lock L c obj w =
        (Inr (length (heap w)),
         c\<lparr>resourceByType := (resourceByType c)(TypeOf obj \<mapsto> length (heap w))\<rparr>,
         w\<lparr>heap := heap w @ [\<lparr>Interface = cl, gvk = itemGVK obj g0, mapping = m\<rparr>],
           calls := calls w @
             [Call_GVKForObject obj, Call_RESTClientForGVK (itemGVK obj g0),
              Call_RESTMapping (GroupKind (itemGVK obj g0)) (Version (itemGVK obj g0))]\<rparr>) \<and>
      (resourceByType c (TypeOf obj) = None \<longrightarrow>
         getResourceByType L c obj w =
           (Inr (length (heap w)),
            c\<lparr>resourceByType := (resourceByType c)(TypeOf obj \<mapsto> length (heap w))\<rparr>,
            w\<lparr>heap := heap w @ [\<lparr>Interface = cl, gvk = itemGVK obj g0, mapping = m\<rparr>],
              calls := calls w @
                [Call_GVKForObject obj, Call_RESTClientForGVK (itemGVK obj g0),
                 Call_RESTMapping (GroupKind (itemGVK obj g0)) (Version (itemGVK obj g0))]\<rparr>))) \<and>
   (GVKForObject L obj (scheme c) = Inr g0 \<and>
    clientForGVK L c True (itemGVK obj g0) = Inr cld \<and>
    RESTMappingFor L (mapper c) (GroupKind (itemGVK obj g0)) (Version (itemGVK obj g0)) = Inr m \<longrightarrow>
      getUnstructuredResourceByGVK_Lock L c obj w =
        (Inr (length (heap w)),
         c\<lparr>unstructuredResourceByGVK :=
             (unstructuredResourceByGVK c)(ObjectKind obj \<mapsto> length (heap w))\<rparr>,
         w\<lparr>heap := heap w @ [\<lparr>Interface = cld, gvk = itemGVK obj g0, mapping = m\<rparr>],
           calls := calls w @
             [Call_GVKForObject obj, Call_RESTUnstructuredClientForGVK (itemGVK obj g0),
              Call_RESTMapping (GroupKind (itemGVK obj g0)) (Version (itemGVK obj g0))]\<rparr>) \<and>
      (unstructuredResourceByGVK c (ObjectKind obj) = None \<longrightarrow>
         getUnstructuredResourceByGVK L c obj w =
           (Inr (length (heap w)),
            c\<lparr>unstructuredResourceByGVK :=
                (unstructuredResourceByGVK c)(ObjectKind obj \<mapsto> length (heap w))\<rparr>,
            w\<lparr>heap := heap w @ [\<lparr>Interface = cld, gvk = itemGVK obj g0, mapping = m\<rparr>],
              calls := calls w @
                [Call_GVKForObject obj, Call_RESTUnstructuredClientForGVK (itemGVK obj g0),
                 Call_RESTMapping (GroupKind (itemGVK obj g0)) (Version (itemGVK obj g0))]\<rparr>))) \<and>
   (newResource L c obj False w = (Inr r, w') \<longrightarrow>
      getResourceByType_Lock L c obj w =
        (Inr r, c\<lparr>resourceByType := (resourceByType c)(TypeOf obj \<mapsto> r)\<rparr>, w') \<and>
      r = length (heap w) \<and> length (heap w') = Suc (length (heap w))) \<and>
   (newResource L c obj True w = (Inr r, w') \<longrightarrow>
      getUnstructuredResourceByGVK_Lock L c obj w =
        (Inr r,
         c\<lparr>unstructuredResourceByGVK := (unstructuredResourceByGVK c)(ObjectKind obj \<mapsto> r)\<rparr>,
         w') \<and>
      r = length (heap w) \<and> length (heap w') = Suc (length (heap w)))"
proof -
  have 1: "resourceByType c (TypeOf obj) = None \<longrightarrow>
      getResourceByType L c obj w = getResourceByType_Lock L c obj w"
    by (simp add: getResourceByType_miss)
  have 2: "unstructuredResourceByGVK c (ObjectKind obj) = None \<longrightarrow>
      getUnstructuredResourceByGVK L c obj w = getUnstructuredResourceByGVK_Lock L c obj w"
    by (simp add: getUnstructuredResourceByGVK_miss)
  have 3: "GVKForObject L obj (scheme c) = Inr g0 \<and>
    clientForGVK L c False (itemGVK obj g0) = Inr cl \<and>
    RESTMappingFor L (mapper c) (GroupKind (itemGVK obj g0)) (Version (itemGVK obj g0)) = Inr m \<longrightarrow>
      getResourceByType_Lock L c obj w =
        (Inr (length (heap w)),
         c\<lparr>resourceByType := (resourceByType c)(TypeOf obj \<mapsto> length (heap w))\<rparr>,
         w\<lparr>heap := heap w @ [\<lparr>Interface = cl, gvk = itemGVK obj g0, mapping = m\<rparr>],
           calls := calls w @
             [Call_GVKForObject obj, Call_RESTClientForGVK (itemGVK obj g0),
              Call_RESTMapping (GroupKind (itemGVK obj g0)) (Version (itemGVK obj g0))]\<rparr>)"
    using getResourceByType_Lock_builds[of L obj c g0 cl m w] by blast
  have 4: "GVKForObject L obj (scheme c) = Inr g0 \<and>
    clientForGVK L c True (itemGVK obj g0) = Inr cld \<and>
    RESTMappingFor L (mapper c) (GroupKind (itemGVK obj g0)) (Version (itemGVK obj g0)) = Inr m \<longrightarrow>
      getUnstructuredResourceByGVK_Lock L c obj w =
        (Inr (length (heap w)),
         c\<lparr>unstructuredResourceByGVK :=
             (unstructuredResourceByGVK c)(ObjectKind obj \<mapsto> length (heap w))\<rparr>,
         w\<lparr>heap := heap w @ [\<lparr>Interface = cld, gvk = itemGVK obj g0, mapping = m\<rparr>],
           calls := calls w @
             [Call_GVKForObject obj, Call_RESTUnstructuredClientForGVK (itemGVK obj g0),
              Call_RESTMapping (GroupKind (itemGVK obj g0)) (Version (itemGVK obj g0))]\<rparr>)"
    using getUnstructuredResourceByGVK_Lock_builds[of L obj c g0 cld m w] by blast
  have 5: "newResource L c obj False w = (Inr r, w') \<longrightarrow>
      getResourceByType_Lock L c obj w =
        (Inr r, c\<lparr>resourceByType := (resourceByType c)(TypeOf obj \<mapsto> r)\<rparr>, w') \<and>
      r = length (heap w) \<and> length (heap w') = Suc (length (heap w))"
    using getResourceByType_Lock_Inr[of L c obj w r w'] newResource_Inr_heap[of L c obj False w r w']
    by auto
  have 6: "newResource L c obj True w = (Inr r, w') \<longrightarrow>
      getUnstructuredResourceByGVK_Lock L c obj w =
        (Inr r,
         c\<lparr>unstructuredResourceByGVK := (unstructuredResourceByGVK c)(ObjectKind obj \<mapsto> r)\<rparr>,
         w') \<and>
      r = length (heap w) \<and> length (heap w') = Suc (length (heap w))"
    using getUnstructuredResourceByGVK_Lock_Inr[of L c obj w r w']
      newResource_Inr_heap[of L c obj True w r w']
    by auto
  from 1 2 3 4 5 6 show ?thesis by metis
qed

theorem miss_constructs_and_inserts_witness:
  "resourceByType cache0 (TypeOf widget) = None \<and>
   unstructuredResourceByGVK cache0 (ObjectKind dynWidgetList) = None \<and>
   GVKForObject stubs widget (scheme cache0) = Inr widgetGVK \<and>
   itemGVK widget widgetGVK = widgetGVK \<and>
   clientForGVK stubs cache0 False widgetGVK = Inr ''typed'' \<and>
   GVKForObject stubs dynWidgetList (scheme cache0) = Inr widgetListGVK \<and>
   itemGVK dynWidgetList widgetListGVK = widgetGVK \<and>
   clientForGVK stubs cache0 True widgetGVK = Inr ''dynamic'' \<and>
   RESTMappingFor stubs (mapper cache0) (GroupKind widgetGVK) (Version widgetGVK) =
     Inr \<lparr>Resource = ''widgets'', Scope = \<lparr>Name = ''namespace''\<rparr>\<rparr> \<and>
   getResourceByType stubs cache0 widget world0 =
     (Inr 0,
      cache0\<lparr>resourceByType := (resourceByType cache0)(OtherType ''*v1.Widget'' \<mapsto> 0)\<rparr>,
      \<lparr>heap = [\<lparr>Interface = ''typed'', gvk = widgetGVK,
                 mapping = \<lparr>Resource = ''widgets'', Scope = \<lparr>Name = ''namespace''\<rparr>\<rparr>\<rparr>],
       calls = [Call_GVKForObject widget, Call_RESTClientForGVK widgetGVK,
                Call_RESTMapping (''apps'', ''Widget'') ''v1'']\<rparr>) \<and>
   getUnstructuredResourceByGVK stubs cache0 dynWidgetList world0 =
     (Inr 0,
      cache0\<lparr>unstructuredResourceByGVK :=
               (unstructuredResourceByGVK cache0)(widgetListGVK \<mapsto> 0)\<rparr>,
      \<lparr>heap = [\<lparr>Interface = ''dynamic'', gvk = widgetGVK,
                 mapping = \<lparr>Resource = ''widgets'', Scope = \<lparr>Name = ''namespace''\<rparr>\<rparr>\<rparr>],
       calls = [Call_GVKForObject dynWidgetList, Call_RESTUnstructuredClientForGVK widgetGVK,
                Call_RESTMapping (''apps'', ''Widget'') ''v1'']\<rparr>) \<and>
   newResource stubs cache0 widget False world0 =
     (Inr 0,
      \<lparr>heap = [\<lparr>Interface = ''typed'', gvk = widgetGVK,
                 mapping = \<lparr>Resource = ''widgets'', Scope = \<lparr>Name = ''namespace''\<rparr>\<rparr>\<rparr>],
       calls = [Call_GVKForObject widget, Call_RESTClientForGVK widgetGVK,
                Call_RESTMapping (''apps'', ''Widget'') ''v1'']\<rparr>) \<and>
   newResource stubs cache0 dynWidgetList True world0 =
     (Inr 0,
      \<lparr>heap = [\<lparr>Interface = ''dynamic'', gvk = widgetGVK,
                 mapping = \<lparr>Resource = ''widgets'', Scope = \<lparr>Name = ''namespace''\<rparr>\<rparr>\<rparr>],
       calls = [Call_GVKForObject dynWidgetList, Call_RESTUnstructuredClientForGVK widgetGVK,
                Call_RESTMapping (''apps'', ''Widget'') ''v1'']\<rparr>) \<and>
   fst (getResourceByType_Lock stubs cache0 widget world0) = Inr 0 \<and>
   fst (getUnstructuredResourceByGVK_Lock stubs cache0 dynWidgetList world0) = Inr 0"
proof -
  let ?m = "\<lparr>Resource = ''widgets'', Scope = \<lparr>Name = ''namespace''\<rparr>\<rparr>"
  have e: "resourceByType cache0 (TypeOf widget) = None"
    "unstructuredResourceByGVK cache0 (ObjectKind dynWidgetList) = None"
    by (simp_all add: cache0_def)
  have k: "TypeOf widget = OtherType ''*v1.Widget''" "ObjectKind dynWidgetList = widgetListGVK"
    "heap world0 = []" "calls world0 = []" "GroupKind widgetGVK = (''apps'', ''Widget'')"
    "Version widgetGVK = ''v1''"
    by (simp_all add: example_defs GroupKind_def)
  have t: "GVKForObject stubs widget (scheme cache0) = Inr widgetGVK"
    "itemGVK widget widgetGVK = widgetGVK"
    "clientForGVK stubs cache0 False widgetGVK = Inr ''typed''"
    "RESTMappingFor stubs (mapper cache0) (GroupKind widgetGVK) (Version widgetGVK) = Inr ?m"
    by (simp_all add: cache_defs example_defs)
  have g: "GVKForObject stubs dynWidgetList (scheme cache0) = Inr widgetListGVK"
    "itemGVK dynWidgetList widgetListGVK = widgetGVK"
    "clientForGVK stubs cache0 True widgetGVK = Inr ''dynamic''"
    by (simp_all add: cache_defs example_defs)
  have n: "newResource stubs cache0 widget False world0 =
     (Inr 0,
      \<lparr>heap = [\<lparr>Interface = ''typed'', gvk = widgetGVK, mapping = ?m\<rparr>],
       calls = [Call_GVKForObject widget, Call_RESTClientForGVK widgetGVK,
                Call_RESTMapping (''apps'', ''Widget'') ''v1'']\<rparr>)"
    "newResource stubs cache0 dynWidgetList True world0 =
     (Inr 0,
      \<lparr>heap = [\<lparr>Interface = ''dynamic'', gvk = widgetGVK, mapping = ?m\<rparr>],
       calls = [Call_GVKForObject dynWidgetList, Call_RESTUnstructuredClientForGVK widgetGVK,
                Call_RESTMapping (''apps'', ''Widget'') ''v1'']\<rparr>)"
    by (simp_all add: cache_defs example_defs)
  have w: "world0\<lparr>heap := [] @ [x], calls := [] @ ys\<rparr> = \<lparr>heap = [x], calls = ys\<rparr>" for x ys
    by (simp add: world0_def)
  note A = miss_constructs_and_inserts[where c = cache0 and obj = widget and L = stubs
      and w = world0 and ?g0.0 = widgetGVK and cl = "''typed''" and m = ?m and r = 0
      and w' = "\<lparr>heap = [\<lparr>Interface = ''typed'', gvk = widgetGVK, mapping = ?m\<rparr>],
       calls = [Call_GVKForObject widget, Call_RESTClientForGVK widgetGVK,
                Call_RESTMapping (''apps'', ''Widget'') ''v1'']\<rparr>"]
  note B = miss_constructs_and_inserts[where c = cache0 and obj = dynWidgetList and L = stubs
      and w = world0 and ?g0.0 = widgetListGVK and cld = "''dynamic''" and m = ?m and r = 0
      and w' = "\<lparr>heap = [\<lparr>Interface = ''dynamic'', gvk = widgetGVK, mapping = ?m\<rparr>],
       calls = [Call_GVKForObject dynWidgetList, Call_RESTUnstructuredClientForGVK widgetGVK,
                Call_RESTMapping (''apps'', ''Widget'') ''v1'']\<rparr>"]
  have 1: "getResourceByType stubs cache0 widget world0 =
     (Inr 0,
      cache0\<lparr>resourceByType := (resourceByType cache0)(OtherType ''*v1.Widget'' \<mapsto> 0)\<rparr>,
      \<lparr>heap = [\<lparr>Interface = ''typed'', gvk = widgetGVK, mapping = ?m\<rparr>],
       calls = [Call_GVKForObject widget, Call_RESTClientForGVK widgetGVK,
                Call_RESTMapping (''apps'', ''Widget'') ''v1'']\<rparr>)"
    using A e(1) t by (simp add: k w)
  have 2: "getUnstructuredResourceByGVK stubs cache0 dynWidgetList world0 =
     (Inr 0,
      cache0\<lparr>unstructuredResourceByGVK :=
               (unstructuredResourceByGVK cache0)(widgetListGVK \<mapsto> 0)\<rparr>,
      \<lparr>heap = [\<lparr>Interface = ''dynamic'', gvk = widgetGVK, mapping = ?m\<rparr>],
       calls = [Call_GVKForObject dynWidgetList, Call_RESTUnstructuredClientForGVK widgetGVK,
                Call_RESTMapping (''apps'', ''Widget'') ''v1'']\<rparr>)"
    using B e(2) g t(4) by (simp add: k w)
  have 3: "fst (getResourceByType_Lock stubs cache0 widget world0) = Inr 0"
    using A n(1) by simp
  have 4: "fst (getUnstructuredResourceByGVK_Lock stubs cache0 dynWidgetList world0) = Inr 0"
    using B n(2) by simp
  from e t g n 1 2 3 4 show ?thesis by simp
qed

subsection \<open>A failed construction fails the lookup\<close>

lemma getResourceByType_fails:
  assumes "resourceByType c (TypeOf obj) = None" and "newResource L c obj False w = (Inl e, w')"
  shows "getResourceByType L c obj w = (Inl e, c, w')"
  using assms by (simp add: getResourceByType_miss getResourceByType_Lock_Inl)

lemma getUnstructuredResourceByGVK_fails:
  assumes "unstructuredResourceByGVK c (ObjectKind obj) = None"
    and "newResource L c obj True w = (Inl e, w')"
  shows "getUnstructuredResourceByGVK L c obj w = (Inl e, c, w')"
  using assms
  by (simp add: getUnstructuredResourceByGVK_miss getUnstructuredResourceByGVK_Lock_Inl)

lemma getResource_typed:
  "TypeOf obj \<noteq> PtrUnstructured \<and> TypeOf obj \<noteq> PtrUnstructuredList \<Longrightarrow>
     getResource L c obj w = getResourceByType L c obj w"
  by (simp add: getResource_def Let_def)

lemma getResource_schemaless:
  "TypeOf obj = PtrUnstructured \<or> TypeOf obj = PtrUnstructuredList \<Longrightarrow>
     getResource L c obj w = getUnstructuredResourceByGVK L c obj w"
  by (simp add: getResource_def Let_def)

text \<open>
  C3. When the key is absent and a step of the construction fails, the lookup fails with the
  error of that step: the error of the resolver deriving the group/version/kind, after that
  one call; else the error of the client constructor, after two calls; else the error of the
  mapper, after three. This holds for the lookup by type, the lookup by group/version/kind
  and \<open>getResource\<close>. In each case the lookup returns the cache it was given, both tables
  included, and builds no record: only the log of calls grows. Conversely, \<open>newResource\<close>
  fails for one of these three causes only, and a lookup that returns an error returns the
  error of \<open>newResource\<close> and leaves the cache and the heap as they were. The key is still
  absent afterwards, so the next lookup for it runs the construction again, and returns its
  result if it then succeeds.
\<close>

theorem failed_construction_leaves_no_trace:
  "(resourceByType c (TypeOf obj) = None \<and>
    GVKForObject L obj (scheme c) = Inl e \<longrightarrow>
      getResourceByType L c obj w =
        (Inl e, c, w\<lparr>calls := calls w @
           [Call_GVKForObject obj]\<rparr>)) \<and>
   (resourceByType c (TypeOf obj) = None \<and>
    GVKForObject L obj (scheme c) = Inr g0 \<and>
    clientForGVK L c False (itemGVK obj g0) = Inl e \<longrightarrow>
      getResourceByType L c obj w =
        (Inl e, c, w\<lparr>calls := calls w @
           [Call_GVKForObject obj,
            Call_RESTClientForGVK (itemGVK obj g0)]\<rparr>)) \<and>
   (resourceByType c (TypeOf obj) = None \<and>
    GVKForObject L obj (scheme c) = Inr g0 \<and>
    clientForGVK L c False (itemGVK obj g0) = Inr cl \<and>
    RESTMappingFor L (mapper c) (GroupKind (itemGVK obj g0)) (Version (itemGVK obj g0)) = Inl e \<longrightarrow>
      getResourceByType L c obj w =
        (Inl e, c, w\<lparr>calls := calls w @
           [Call_GVKForObject obj,
            Call_RESTClientForGVK (itemGVK obj g0),
            Call_RESTMapping (GroupKind (itemGVK obj g0)) (Version (itemGVK obj g0))]\<rparr>)) \<and>
   (unstructuredResourceByGVK c (ObjectKind obj) = None \<and>
    GVKForObject L obj (scheme c) = Inl e \<longrightarrow>
      getUnstructuredResourceByGVK L c obj w =
        (Inl e, c, w\<lparr>calls := calls w @
           [Call_GVKForObject obj]\<rparr>)) \<and>
   (unstructuredResourceByGVK c (ObjectKind obj) = None \<and>
    GVKForObject L obj (scheme c) = Inr g0 \<and>
    clientForGVK L c True (itemGVK obj g0) = Inl e \<longrightarrow>
      getUnstructuredResourceByGVK L c obj w =
        (Inl e, c, w\<lparr>calls := calls w @
           [Call_GVKForObject obj,
            Call_RESTUnstructuredClientForGVK (itemGVK obj g0)]\<rparr>)) \<and>
   (unstructuredResourceByGVK c (ObjectKind obj) = None \<and>
    GVKForObject L obj (scheme c) = Inr g0 \<and>
    clientForGVK L c True (itemGVK obj g0) = Inr cl \<and>
    RESTMappingFor L (mapper c) (GroupKind (itemGVK obj g0)) (Version (itemGVK obj g0)) = Inl e \<longrightarrow>
      getUnstructuredResourceByGVK L c obj w =
        (Inl e, c, w\<lparr>calls := calls w @
           [Call_GVKForObject obj,
            Call_RESTUnstructuredClientForGVK (itemGVK obj g0),
            Call_RESTMapping (GroupKind (itemGVK obj g0)) (Version (itemGVK obj g0))]\<rparr>)) \<and>
   (TypeOf obj \<noteq> PtrUnstructured \<and> TypeOf obj \<noteq> PtrUnstructuredList \<and>
    resourceByType c (TypeOf obj) = None \<and>
    GVKForObject L obj (scheme c) = Inl e \<longrightarrow>
      getResource L c obj w =
        (Inl e, c, w\<lparr>calls := calls w @
           [Call_GVKForObject obj]\<rparr>)) \<and>
   (TypeOf obj \<noteq> PtrUnstructured \<and> TypeOf obj \<noteq> PtrUnstructuredList \<and>
    resourceByType c (TypeOf obj) = None \<and>
    GVKForObject L obj (scheme c) = Inr g0 \<and>
    clientForGVK L c False (itemGVK obj g0) = Inl e \<longrightarrow>
      getResource L c obj w =
        (Inl e, c, w\<lparr>calls := calls w @
           [Call_GVKForObject obj,
            Call_RESTClientForGVK (itemGVK obj g0)]\<rparr>)) \<and>
   (TypeOf obj \<noteq> PtrUnstructured \<and> TypeOf obj \<noteq> PtrUnstructuredList \<and>
    resourceByType c (TypeOf obj) = None \<and>
    GVKForObject L obj (scheme c) = Inr g0 \<and>
    clientForGVK L c False (itemGVK obj g0) = Inr cl \<and>
    RESTMappingFor L (mapper c) (GroupKind (itemGVK obj g0)) (Version (itemGVK obj g0)) = Inl e \<longrightarrow>
      getResource L c obj w =
        (Inl e, c, w\<lparr>calls := calls w @
           [Call_GVKForObject obj,
            Call_RESTClientForGVK (itemGVK obj g0),
            Call_RESTMapping (GroupKind (itemGVK obj g0)) (Version (itemGVK obj g0))]\<rparr>)) \<and>
   ((TypeOf obj = PtrUnstructured \<or> TypeOf obj = PtrUnstructuredList) \<and>
    unstructuredResourceByGVK c (ObjectKind obj) = None \<and>
    GVKForObject L obj (scheme c) = Inl e \<longrightarrow>
      getResource L c obj w =
        (Inl e, c, w\<lparr>calls := calls w @
           [Call_GVKForObject obj]\<rparr>)) \<and>
   ((TypeOf obj = PtrUnstructured \<or> TypeOf obj = PtrUnstructuredList) \<and>
    unstructuredResourceByGVK c (ObjectKind obj) = None \<and>
    GVKForObject L obj (scheme c) = Inr g0 \<and>
    clientForGVK L c True (itemGVK obj g0) = Inl e \<longrightarrow>
      getResource L c obj w =
        (Inl e, c, w\<lparr>calls := calls w @
           [Call_GVKForObject obj,
            Call_RESTUnstructuredClientForGVK (itemGVK obj g0)]\<rparr>)) \<and>
   ((TypeOf obj = PtrUnstructured \<or> TypeOf obj = PtrUnstructuredList) \<and>
    unstructuredResourceByGVK c (ObjectKind obj) = None \<and>
    GVKForObject L obj (scheme c) = Inr g0 \<and>
    clientForGVK L c True (itemGVK obj g0) = Inr cl \<and>
    RESTMappingFor L (mapper c) (GroupKind (itemGVK obj g0)) (Version (itemGVK obj g0)) = Inl e \<longrightarrow>
      getResource L c obj w =
        (Inl e, c, w\<lparr>calls := calls w @
           [Call_GVKForObject obj,
            Call_RESTUnstructuredClientForGVK (itemGVK obj g0),
            Call_RESTMapping (GroupKind (itemGVK obj g0)) (Version (itemGVK obj g0))]\<rparr>)) \<and>
   (GVKForObject L obj (scheme c) = Inl e \<longrightarrow> fst (newResource L c obj b w) = Inl e) \<and>
   (GVKForObject L obj (scheme c) = Inr g0 \<and> clientForGVK L c b (itemGVK obj g0) = Inl e \<longrightarrow>
      fst (newResource L c obj b w) = Inl e) \<and>
   (GVKForObject L obj (scheme c) = Inr g0 \<and> clientForGVK L c b (itemGVK obj g0) = Inr cl \<and>
    RESTMappingFor L (mapper c) (GroupKind (itemGVK obj g0)) (Version (itemGVK obj g0)) = Inl e \<longrightarrow>
      fst (newResource L c obj b w) = Inl e) \<and>
   (newResource L c obj b w = (Inl e, w') \<longrightarrow>
      heap w' = heap w \<and>
      (GVKForObject L obj (scheme c) = Inl e \<or>
       (\<exists>g. GVKForObject L obj (scheme c) = Inr g \<and>
          (clientForGVK L c b (itemGVK obj g) = Inl e \<or>
           (\<exists>x. clientForGVK L c b (itemGVK obj g) = Inr x \<and>
              RESTMappingFor L (mapper c) (GroupKind (itemGVK obj g)) (Version (itemGVK obj g)) =
                Inl e))))) \<and>
   (getResource L c obj w = (Inl e, c', w') \<longrightarrow> c' = c \<and> heap w' = heap w) \<and>
   (getResourceByType L c obj w = (Inl e, c', w') \<longrightarrow>
      c' = c \<and> heap w' = heap w \<and> newResource L c obj False w = (Inl e, w') \<and>
      (TypeOf obj2 = TypeOf obj \<longrightarrow>
         getResourceByType L2 c' obj2 w2 = getResourceByType_Lock L2 c obj2 w2 \<and>
         (newResource L2 c obj2 False w2 = (Inr r, w3) \<longrightarrow>
            getResourceByType L2 c' obj2 w2 =
              (Inr r, c\<lparr>resourceByType := (resourceByType c)(TypeOf obj \<mapsto> r)\<rparr>, w3)))) \<and>
   (getUnstructuredResourceByGVK L c obj w = (Inl e, c', w') \<longrightarrow>
      c' = c \<and> heap w' = heap w \<and> newResource L c obj True w = (Inl e, w') \<and>
      (ObjectKind obj2 = ObjectKind obj \<longrightarrow>
         getUnstructuredResourceByGVK L2 c' obj2 w2 =
           getUnstructuredResourceByGVK_Lock L2 c obj2 w2 \<and>
         (newResource L2 c obj2 True w2 = (Inr r, w3) \<longrightarrow>
            getUnstructuredResourceByGVK L2 c' obj2 w2 =
              (Inr r,
               c\<lparr>unstructuredResourceByGVK :=
                   (unstructuredResourceByGVK c)(ObjectKind obj \<mapsto> r)\<rparr>,
               w3))))"
proof -
  note F = newResource_fails_GVK newResource_fails_client newResource_fails_mapping
  have n1: "resourceByType c (TypeOf obj) = None \<and>
    GVKForObject L obj (scheme c) = Inl e \<longrightarrow>
      getResourceByType L c obj w =
        (Inl e, c, w\<lparr>calls := calls w @
           [Call_GVKForObject obj]\<rparr>)"
    by (auto simp: getResourceByType_fails F)
  have n2: "resourceByType c (TypeOf obj) = None \<and>
    GVKForObject L obj (scheme c) = Inr g0 \<and>
    clientForGVK L c False (itemGVK obj g0) = Inl e \<longrightarrow>
      getResourceByType L c obj w =
        (Inl e, c, w\<lparr>calls := calls w @
           [Call_GVKForObject obj,
            Call_RESTClientForGVK (itemGVK obj g0)]\<rparr>)"
    by (auto simp: getResourceByType_fails F)
  have n3: "resourceByType c (TypeOf obj) = None \<and>
    GVKForObject L obj (scheme c) = Inr g0 \<and>
    clientForGVK L c False (itemGVK obj g0) = Inr cl \<and>
    RESTMappingFor L (mapper c) (GroupKind (itemGVK obj g0)) (Version (itemGVK obj g0)) = Inl e \<longrightarrow>
      getResourceByType L c obj w =
        (Inl e, c, w\<lparr>calls := calls w @
           [Call_GVKForObject obj,
            Call_RESTClientForGVK (itemGVK obj g0),
            Call_RESTMapping (GroupKind (itemGVK obj g0)) (Version (itemGVK obj g0))]\<rparr>)"
    by (auto simp: getResourceByType_fails F)
  have n4: "unstructuredResourceByGVK c (ObjectKind obj) = None \<and>
    GVKForObject L obj (scheme c) = Inl e \<longrightarrow>
      getUnstructuredResourceByGVK L c obj w =
        (Inl e, c, w\<lparr>calls := calls w @
           [Call_GVKForObject obj]\<rparr>)"
    by (auto simp: getUnstructuredResourceByGVK_fails F)
  have n5: "unstructuredResourceByGVK c (ObjectKind obj) = None \<and>
    GVKForObject L obj (scheme c) = Inr g0 \<and>
    clientForGVK L c True (itemGVK obj g0) = Inl e \<longrightarrow>
      getUnstructuredResourceByGVK L c obj w =
        (Inl e, c, w\<lparr>calls := calls w @
           [Call_GVKForObject obj,
            Call_RESTUnstructuredClientForGVK (itemGVK obj g0)]\<rparr>)"
    by (auto simp: getUnstructuredResourceByGVK_fails F)
  have n6: "unstructuredResourceByGVK c (ObjectKind obj) = None \<and>
    GVKForObject L obj (scheme c) = Inr g0 \<and>
    clientForGVK L c True (itemGVK obj g0) = Inr cl \<and>
    RESTMappingFor L (mapper c) (GroupKind (itemGVK obj g0)) (Version (itemGVK obj g0)) = Inl e \<longrightarrow>
      getUnstructuredResourceByGVK L c obj w =
        (Inl e, c, w\<lparr>calls := calls w @
           [Call_GVKForObject obj,
            Call_RESTUnstructuredClientForGVK (itemGVK obj g0),
            Call_RESTMapping (GroupKind (itemGVK obj g0)) (Version (itemGVK obj g0))]\<rparr>)"
    by (auto simp: getUnstructuredResourceByGVK_fails F)
  have n7: "TypeOf obj \<noteq> PtrUnstructured \<and> TypeOf obj \<noteq> PtrUnstructuredList \<and>
    resourceByType c (TypeOf obj) = None \<and>
    GVKForObject L obj (scheme c) = Inl e \<longrightarrow>
      getResource L c obj w =
        (Inl e, c, w\<lparr>calls := calls w @
           [Call_GVKForObject obj]\<rparr>)"
    by (auto simp: getResource_typed getResourceByType_fails F)
  have n8: "TypeOf obj \<noteq> PtrUnstructured \<and> TypeOf obj \<noteq> PtrUnstructuredList \<and>
    resourceByType c (TypeOf obj) = None \<and>
    GVKForObject L obj (scheme c) = Inr g0 \<and>
    clientForGVK L c False (itemGVK obj g0) = Inl e \<longrightarrow>
      getResource L c obj w =
        (Inl e, c, w\<lparr>calls := calls w @
           [Call_GVKForObject obj,
            Call_RESTClientForGVK (itemGVK obj g0)]\<rparr>)"
    by (auto simp: getResource_typed getResourceByType_fails F)
  have n9: "TypeOf obj \<noteq> PtrUnstructured \<and> TypeOf obj \<noteq> PtrUnstructuredList \<and>
    resourceByType c (TypeOf obj) = None \<and>
    GVKForObject L obj (scheme c) = Inr g0 \<and>
    clientForGVK L c False (itemGVK obj g0) = Inr cl \<and>
    RESTMappingFor L (mapper c) (GroupKind (itemGVK obj g0)) (Version (itemGVK obj g0)) = Inl e \<longrightarrow>
      getResource L c obj w =
        (Inl e, c, w\<lparr>calls := calls w @
           [Call_GVKForObject obj,
            Call_RESTClientForGVK (itemGVK obj g0),
            Call_RESTMapping (GroupKind (itemGVK obj g0)) (Version (itemGVK obj g0))]\<rparr>)"
    by (auto simp: getResource_typed getResourceByType_fails F)
  have n10: "(TypeOf obj = PtrUnstructured \<or> TypeOf obj = PtrUnstructuredList) \<and>
    unstructuredResourceByGVK c (ObjectKind obj) = None \<and>
    GVKForObject L obj (scheme c) = Inl e \<longrightarrow>
      getResource L c obj w =
        (Inl e, c, w\<lparr>calls := calls w @
           [Call_GVKForObject obj]\<rparr>)"
    by (auto simp: getResource_schemaless getUnstructuredResourceByGVK_fails F)
  have n11: "(TypeOf obj = PtrUnstructured \<or> TypeOf obj = PtrUnstructuredList) \<and>
    unstructuredResourceByGVK c (ObjectKind obj) = None \<and>
    GVKForObject L obj (scheme c) = Inr g0 \<and>
    clientForGVK L c True (itemGVK obj g0) = Inl e \<longrightarrow>
      getResource L c obj w =
        (Inl e, c, w\<lparr>calls := calls w @
           [Call_GVKForObject obj,
            Call_RESTUnstructuredClientForGVK (itemGVK obj g0)]\<rparr>)"
    by (auto simp: getResource_schemaless getUnstructuredResourceByGVK_fails F)
  have n12: "(TypeOf obj = PtrUnstructured \<or> TypeOf obj = PtrUnstructuredList) \<and>
    unstructuredResourceByGVK c (ObjectKind obj) = None \<and>
    GVKForObject L obj (scheme c) = Inr g0 \<and>
    clientForGVK L c True (itemGVK obj g0) = Inr cl \<and>
    RESTMappingFor L (mapper c) (GroupKind (itemGVK obj g0)) (Version (itemGVK obj g0)) = Inl e \<longrightarrow>
      getResource L c obj w =
        (Inl e, c, w\<lparr>calls := calls w @
           [Call_GVKForObject obj,
            Call_RESTUnstructuredClientForGVK (itemGVK obj g0),
            Call_RESTMapping (GroupKind (itemGVK obj g0)) (Version (itemGVK obj g0))]\<rparr>)"
    by (auto simp: getResource_schemaless getUnstructuredResourceByGVK_fails F)
  have o1: "GVKForObject L obj (scheme c) = Inl e \<longrightarrow> fst (newResource L c obj b w) = Inl e"
    by (simp add: newResource_fail_GVK)
  have o2: "GVKForObject L obj (scheme c) = Inr g0 \<and> clientForGVK L c b (itemGVK obj g0) = Inl e \<longrightarrow>
      fst (newResource L c obj b w) = Inl e"
    by (simp add: newResource_fail_client)
  have o3: "GVKForObject L obj (scheme c) = Inr g0 \<and> clientForGVK L c b (itemGVK obj g0) = Inr cl \<and>
    RESTMappingFor L (mapper c) (GroupKind (itemGVK obj g0)) (Version (itemGVK obj g0)) = Inl e \<longrightarrow>
      fst (newResource L c obj b w) = Inl e"
    using newResource_fail_mapping[of L obj c g0 b cl e w] by blast
  have o4: "newResource L c obj b w = (Inl e, w') \<longrightarrow>
      heap w' = heap w \<and>
      (GVKForObject L obj (scheme c) = Inl e \<or>
       (\<exists>g. GVKForObject L obj (scheme c) = Inr g \<and>
          (clientForGVK L c b (itemGVK obj g) = Inl e \<or>
           (\<exists>x. clientForGVK L c b (itemGVK obj g) = Inr x \<and>
              RESTMappingFor L (mapper c) (GroupKind (itemGVK obj g)) (Version (itemGVK obj g)) =
                Inl e))))"
    using newResource_Inl_heap[of L c obj b w e w'] newResource_Inl_cause[of L c obj b w e w']
    by blast
  have o5: "getResource L c obj w = (Inl e, c', w') \<longrightarrow> c' = c \<and> heap w' = heap w"
    using getResource_Inl[of L c obj w e c' w'] by blast
  have o6: "getResourceByType L c obj w = (Inl e, c', w') \<longrightarrow>
      c' = c \<and> heap w' = heap w \<and> newResource L c obj False w = (Inl e, w') \<and>
      (TypeOf obj2 = TypeOf obj \<longrightarrow>
         getResourceByType L2 c' obj2 w2 = getResourceByType_Lock L2 c obj2 w2 \<and>
         (newResource L2 c obj2 False w2 = (Inr r, w3) \<longrightarrow>
            getResourceByType L2 c' obj2 w2 =
              (Inr r, c\<lparr>resourceByType := (resourceByType c)(TypeOf obj \<mapsto> r)\<rparr>, w3)))"
  proof (intro impI)
    assume a: "getResourceByType L c obj w = (Inl e, c', w')"
    note f = getResourceByType_Inl[OF a]
    have "TypeOf obj2 = TypeOf obj \<Longrightarrow>
        getResourceByType L2 c' obj2 w2 = getResourceByType_Lock L2 c obj2 w2"
      using f by (simp add: getResourceByType_miss)
    moreover have "TypeOf obj2 = TypeOf obj \<Longrightarrow> newResource L2 c obj2 False w2 = (Inr r, w3) \<Longrightarrow>
        getResourceByType_Lock L2 c obj2 w2 =
          (Inr r, c\<lparr>resourceByType := (resourceByType c)(TypeOf obj \<mapsto> r)\<rparr>, w3)"
      by (simp add: getResourceByType_Lock_Inr)
    ultimately show "c' = c \<and> heap w' = heap w \<and> newResource L c obj False w = (Inl e, w') \<and>
      (TypeOf obj2 = TypeOf obj \<longrightarrow>
         getResourceByType L2 c' obj2 w2 = getResourceByType_Lock L2 c obj2 w2 \<and>
         (newResource L2 c obj2 False w2 = (Inr r, w3) \<longrightarrow>
            getResourceByType L2 c' obj2 w2 =
              (Inr r, c\<lparr>resourceByType := (resourceByType c)(TypeOf obj \<mapsto> r)\<rparr>, w3)))"
      using f by simp
  qed
  have o7: "getUnstructuredResourceByGVK L c obj w = (Inl e, c', w') \<longrightarrow>
      c' = c \<and> heap w' = heap w \<and> newResource L c obj True w = (Inl e, w') \<and>
      (ObjectKind obj2 = ObjectKind obj \<longrightarrow>
         getUnstructuredResourceByGVK L2 c' obj2 w2 =
           getUnstructuredResourceByGVK_Lock L2 c obj2 w2 \<and>
         (newResource L2 c obj2 True w2 = (Inr r, w3) \<longrightarrow>
            getUnstructuredResourceByGVK L2 c' obj2 w2 =
              (Inr r,
               c\<lparr>unstructuredResourceByGVK :=
                   (unstructuredResourceByGVK c)(ObjectKind obj \<mapsto> r)\<rparr>,
               w3)))"
  proof (intro impI)
    assume a: "getUnstructuredResourceByGVK L c obj w = (Inl e, c', w')"
    note f = getUnstructuredResourceByGVK_Inl[OF a]
    have "ObjectKind obj2 = ObjectKind obj \<Longrightarrow>
        getUnstructuredResourceByGVK L2 c' obj2 w2 =
          getUnstructuredResourceByGVK_Lock L2 c obj2 w2"
      using f by (simp add: getUnstructuredResourceByGVK_miss)
    moreover have "ObjectKind obj2 = ObjectKind obj \<Longrightarrow>
        newResource L2 c obj2 True w2 = (Inr r, w3) \<Longrightarrow>
        getUnstructuredResourceByGVK_Lock L2 c obj2 w2 =
          (Inr r,
           c\<lparr>unstructuredResourceByGVK :=
               (unstructuredResourceByGVK c)(ObjectKind obj \<mapsto> r)\<rparr>,
           w3)"
      by (simp add: getUnstructuredResourceByGVK_Lock_Inr)
    ultimately show "c' = c \<and> heap w' = heap w \<and> newResource L c obj True w = (Inl e, w') \<and>
      (ObjectKind obj2 = ObjectKind obj \<longrightarrow>
         getUnstructuredResourceByGVK L2 c' obj2 w2 =
           getUnstructuredResourceByGVK_Lock L2 c obj2 w2 \<and>
         (newResource L2 c obj2 True w2 = (Inr r, w3) \<longrightarrow>
            getUnstructuredResourceByGVK L2 c' obj2 w2 =
              (Inr r,
               c\<lparr>unstructuredResourceByGVK :=
                   (unstructuredResourceByGVK c)(ObjectKind obj \<mapsto> r)\<rparr>,
               w3)))"
      using f by simp
  qed
  from n1 n2 n3 n4 n5 n6 n7 n8 n9 n10 n11 n12 o1 o2 o3 o4 o5 o6 o7 show ?thesis by blast
qed

theorem failed_construction_leaves_no_trace_witness:
  "resourceByType cache0 (TypeOf widget) = None \<and>
   resourceByType cache0 (TypeOf gizmo) = None \<and>
   unstructuredResourceByGVK cache0 (ObjectKind dynWidget) = None \<and>
   unstructuredResourceByGVK cache0 (ObjectKind dynGizmo) = None \<and>
   GVKForObject broken widget (scheme cache0) = Inl ''no kind is registered'' \<and>
   getResourceByType broken cache0 widget world0 =
     (Inl ''no kind is registered'', cache0, world0\<lparr>calls := [Call_GVKForObject widget]\<rparr>) \<and>
   getResource broken cache0 widget world0 =
     (Inl ''no kind is registered'', cache0, world0\<lparr>calls := [Call_GVKForObject widget]\<rparr>) \<and>
   GVKForObject broken dynWidget (scheme cache0) = Inl ''no kind is registered'' \<and>
   getUnstructuredResourceByGVK broken cache0 dynWidget world0 =
     (Inl ''no kind is registered'', cache0, world0\<lparr>calls := [Call_GVKForObject dynWidget]\<rparr>) \<and>
   getResource broken cache0 dynWidget world0 =
     (Inl ''no kind is registered'', cache0, world0\<lparr>calls := [Call_GVKForObject dynWidget]\<rparr>) \<and>
   GVKForObject noClient widget (scheme cache0) = Inr widgetGVK \<and>
   clientForGVK noClient cache0 False (itemGVK widget widgetGVK) = Inl ''bad config'' \<and>
   getResourceByType noClient cache0 widget world0 =
     (Inl ''bad config'', cache0, world0\<lparr>calls := [Call_GVKForObject widget, Call_RESTClientForGVK widgetGVK]\<rparr>) \<and>
   getResource noClient cache0 widget world0 =
     (Inl ''bad config'', cache0, world0\<lparr>calls := [Call_GVKForObject widget, Call_RESTClientForGVK widgetGVK]\<rparr>) \<and>
   GVKForObject noClient dynWidget (scheme cache0) = Inr widgetGVK \<and>
   clientForGVK noClient cache0 True (itemGVK dynWidget widgetGVK) = Inl ''bad config'' \<and>
   getUnstructuredResourceByGVK noClient cache0 dynWidget world0 =
     (Inl ''bad config'', cache0, world0\<lparr>calls := [Call_GVKForObject dynWidget, Call_RESTUnstructuredClientForGVK widgetGVK]\<rparr>) \<and>
   getResource noClient cache0 dynWidget world0 =
     (Inl ''bad config'', cache0, world0\<lparr>calls := [Call_GVKForObject dynWidget, Call_RESTUnstructuredClientForGVK widgetGVK]\<rparr>) \<and>
   GVKForObject stubs gizmo (scheme cache0) = Inr (ObjectKind gizmo) \<and>
   clientForGVK stubs cache0 False (itemGVK gizmo (ObjectKind gizmo)) = Inr ''typed'' \<and>
   RESTMappingFor stubs (mapper cache0) (GroupKind (itemGVK gizmo (ObjectKind gizmo))) (Version (itemGVK gizmo (ObjectKind gizmo))) = Inl ''no matches for kind'' \<and>
   getResourceByType stubs cache0 gizmo world0 =
     (Inl ''no matches for kind'', cache0, world0\<lparr>calls := [Call_GVKForObject gizmo, Call_RESTClientForGVK (ObjectKind gizmo), Call_RESTMapping (''apps'', ''Gizmo'') ''v1'']\<rparr>) \<and>
   getResource stubs cache0 gizmo world0 =
     (Inl ''no matches for kind'', cache0, world0\<lparr>calls := [Call_GVKForObject gizmo, Call_RESTClientForGVK (ObjectKind gizmo), Call_RESTMapping (''apps'', ''Gizmo'') ''v1'']\<rparr>) \<and>
   GVKForObject stubs dynGizmo (scheme cache0) = Inr (ObjectKind dynGizmo) \<and>
   clientForGVK stubs cache0 True (itemGVK dynGizmo (ObjectKind dynGizmo)) = Inr ''dynamic'' \<and>
   RESTMappingFor stubs (mapper cache0) (GroupKind (itemGVK dynGizmo (ObjectKind dynGizmo))) (Version (itemGVK dynGizmo (ObjectKind dynGizmo))) = Inl ''no matches for kind'' \<and>
   getUnstructuredResourceByGVK stubs cache0 dynGizmo world0 =
     (Inl ''no matches for kind'', cache0, world0\<lparr>calls := [Call_GVKForObject dynGizmo, Call_RESTUnstructuredClientForGVK (ObjectKind dynGizmo), Call_RESTMapping (''apps'', ''Gizmo'') ''v1'']\<rparr>) \<and>
   getResource stubs cache0 dynGizmo world0 =
     (Inl ''no matches for kind'', cache0, world0\<lparr>calls := [Call_GVKForObject dynGizmo, Call_RESTUnstructuredClientForGVK (ObjectKind dynGizmo), Call_RESTMapping (''apps'', ''Gizmo'') ''v1'']\<rparr>) \<and>
   fst (getResourceByType stubs cache0 widget (world0\<lparr>calls := [Call_GVKForObject widget]\<rparr>)) =
     Inr 0 \<and>
   fst (getUnstructuredResourceByGVK stubs cache0 dynWidget
          (world0\<lparr>calls := [Call_GVKForObject dynWidget]\<rparr>)) = Inr 0"
proof -
  let ?w1 = "world0\<lparr>calls := [Call_GVKForObject widget]\<rparr>"
  let ?w1g = "world0\<lparr>calls := [Call_GVKForObject dynWidget]\<rparr>"
  have e: "resourceByType cache0 (TypeOf widget) = None"
    "resourceByType cache0 (TypeOf gizmo) = None"
    "unstructuredResourceByGVK cache0 (ObjectKind dynWidget) = None"
    "unstructuredResourceByGVK cache0 (ObjectKind dynGizmo) = None"
    by (simp_all add: cache0_def)
  have s: "calls world0 = []" "itemGVK widget widgetGVK = widgetGVK"
    "itemGVK dynWidget widgetGVK = widgetGVK"
    "itemGVK gizmo (ObjectKind gizmo) = ObjectKind gizmo"
    "itemGVK dynGizmo (ObjectKind dynGizmo) = ObjectKind dynGizmo"
    "GroupKind (ObjectKind gizmo) = (''apps'', ''Gizmo'')"
    "GroupKind (ObjectKind dynGizmo) = (''apps'', ''Gizmo'')"
    "Version (ObjectKind gizmo) = ''v1''" "Version (ObjectKind dynGizmo) = ''v1''"
    by (simp_all add: cache_defs example_defs)
  have ty: "TypeOf widget \<noteq> PtrUnstructured \<and> TypeOf widget \<noteq> PtrUnstructuredList"
    "TypeOf gizmo \<noteq> PtrUnstructured \<and> TypeOf gizmo \<noteq> PtrUnstructuredList"
    "TypeOf dynWidget = PtrUnstructured" "TypeOf dynGizmo = PtrUnstructured"
    by (simp_all add: example_defs)
  note A1 = failed_construction_leaves_no_trace[where L = broken and obj = widget and c = cache0
      and w = world0 and e = "''no kind is registered''" and b = False and w' = world0 and c' = cache0 and ?obj2.0 = widget
      and ?L2.0 = stubs and ?w2.0 = world0 and r = 0 and ?w3.0 = world0 and ?g0.0 = widgetGVK and cl = "''typed''"]
  have hA1: "GVKForObject broken widget (scheme cache0) = Inl ''no kind is registered''"
    by (simp_all add: cache_defs example_defs)
  have lA1: "getResourceByType broken cache0 widget world0 =
     (Inl ''no kind is registered'', cache0, world0\<lparr>calls := [Call_GVKForObject widget]\<rparr>)"
    using A1 hA1 e s by simp
  have rA1: "getResource broken cache0 widget world0 =
     (Inl ''no kind is registered'', cache0, world0\<lparr>calls := [Call_GVKForObject widget]\<rparr>)"
    using A1 hA1 e s ty by simp
  note A2 = failed_construction_leaves_no_trace[where L = broken and obj = dynWidget and c = cache0
      and w = world0 and e = "''no kind is registered''" and b = False and w' = world0 and c' = cache0 and ?obj2.0 = widget
      and ?L2.0 = stubs and ?w2.0 = world0 and r = 0 and ?w3.0 = world0 and ?g0.0 = widgetGVK and cl = "''typed''"]
  have hA2: "GVKForObject broken dynWidget (scheme cache0) = Inl ''no kind is registered''"
    by (simp_all add: cache_defs example_defs)
  have lA2: "getUnstructuredResourceByGVK broken cache0 dynWidget world0 =
     (Inl ''no kind is registered'', cache0, world0\<lparr>calls := [Call_GVKForObject dynWidget]\<rparr>)"
    using A2 hA2 e s by simp
  have rA2: "getResource broken cache0 dynWidget world0 =
     (Inl ''no kind is registered'', cache0, world0\<lparr>calls := [Call_GVKForObject dynWidget]\<rparr>)"
    using A2 hA2 e s ty by simp
  note B1 = failed_construction_leaves_no_trace[where L = noClient and obj = widget and c = cache0
      and w = world0 and e = "''bad config''" and ?g0.0 = "widgetGVK" and b = False and w' = world0 and c' = cache0 and ?obj2.0 = widget
      and ?L2.0 = stubs and ?w2.0 = world0 and r = 0 and ?w3.0 = world0 and cl = "''typed''"]
  have hB1: "GVKForObject noClient widget (scheme cache0) = Inr widgetGVK" "clientForGVK noClient cache0 False (itemGVK widget widgetGVK) = Inl ''bad config''"
    by (simp_all add: cache_defs example_defs)
  have lB1: "getResourceByType noClient cache0 widget world0 =
     (Inl ''bad config'', cache0, world0\<lparr>calls := [Call_GVKForObject widget, Call_RESTClientForGVK widgetGVK]\<rparr>)"
    using B1 hB1 e s by simp
  have rB1: "getResource noClient cache0 widget world0 =
     (Inl ''bad config'', cache0, world0\<lparr>calls := [Call_GVKForObject widget, Call_RESTClientForGVK widgetGVK]\<rparr>)"
    using B1 hB1 e s ty by simp
  note B2 = failed_construction_leaves_no_trace[where L = noClient and obj = dynWidget and c = cache0
      and w = world0 and e = "''bad config''" and ?g0.0 = "widgetGVK" and b = False and w' = world0 and c' = cache0 and ?obj2.0 = widget
      and ?L2.0 = stubs and ?w2.0 = world0 and r = 0 and ?w3.0 = world0 and cl = "''typed''"]
  have hB2: "GVKForObject noClient dynWidget (scheme cache0) = Inr widgetGVK" "clientForGVK noClient cache0 True (itemGVK dynWidget widgetGVK) = Inl ''bad config''"
    by (simp_all add: cache_defs example_defs)
  have lB2: "getUnstructuredResourceByGVK noClient cache0 dynWidget world0 =
     (Inl ''bad config'', cache0, world0\<lparr>calls := [Call_GVKForObject dynWidget, Call_RESTUnstructuredClientForGVK widgetGVK]\<rparr>)"
    using B2 hB2 e s by simp
  have rB2: "getResource noClient cache0 dynWidget world0 =
     (Inl ''bad config'', cache0, world0\<lparr>calls := [Call_GVKForObject dynWidget, Call_RESTUnstructuredClientForGVK widgetGVK]\<rparr>)"
    using B2 hB2 e s ty by simp
  note C1 = failed_construction_leaves_no_trace[where L = stubs and obj = gizmo and c = cache0
      and w = world0 and e = "''no matches for kind''" and ?g0.0 = "(ObjectKind gizmo)" and cl = "''typed''" and b = False and w' = world0 and c' = cache0 and ?obj2.0 = widget
      and ?L2.0 = stubs and ?w2.0 = world0 and r = 0 and ?w3.0 = world0]
  have hC1: "GVKForObject stubs gizmo (scheme cache0) = Inr (ObjectKind gizmo)" "clientForGVK stubs cache0 False (itemGVK gizmo (ObjectKind gizmo)) = Inr ''typed''" "RESTMappingFor stubs (mapper cache0) (GroupKind (itemGVK gizmo (ObjectKind gizmo))) (Version (itemGVK gizmo (ObjectKind gizmo))) = Inl ''no matches for kind''"
    by (simp_all add: cache_defs example_defs)
  have lC1: "getResourceByType stubs cache0 gizmo world0 =
     (Inl ''no matches for kind'', cache0, world0\<lparr>calls := [Call_GVKForObject gizmo, Call_RESTClientForGVK (ObjectKind gizmo), Call_RESTMapping (''apps'', ''Gizmo'') ''v1'']\<rparr>)"
    using C1 hC1 e s by simp
  have rC1: "getResource stubs cache0 gizmo world0 =
     (Inl ''no matches for kind'', cache0, world0\<lparr>calls := [Call_GVKForObject gizmo, Call_RESTClientForGVK (ObjectKind gizmo), Call_RESTMapping (''apps'', ''Gizmo'') ''v1'']\<rparr>)"
    using C1 hC1 e s ty by simp
  note C2 = failed_construction_leaves_no_trace[where L = stubs and obj = dynGizmo and c = cache0
      and w = world0 and e = "''no matches for kind''" and ?g0.0 = "(ObjectKind dynGizmo)" and cl = "''dynamic''" and b = False and w' = world0 and c' = cache0 and ?obj2.0 = widget
      and ?L2.0 = stubs and ?w2.0 = world0 and r = 0 and ?w3.0 = world0]
  have hC2: "GVKForObject stubs dynGizmo (scheme cache0) = Inr (ObjectKind dynGizmo)" "clientForGVK stubs cache0 True (itemGVK dynGizmo (ObjectKind dynGizmo)) = Inr ''dynamic''" "RESTMappingFor stubs (mapper cache0) (GroupKind (itemGVK dynGizmo (ObjectKind dynGizmo))) (Version (itemGVK dynGizmo (ObjectKind dynGizmo))) = Inl ''no matches for kind''"
    by (simp_all add: cache_defs example_defs)
  have lC2: "getUnstructuredResourceByGVK stubs cache0 dynGizmo world0 =
     (Inl ''no matches for kind'', cache0, world0\<lparr>calls := [Call_GVKForObject dynGizmo, Call_RESTUnstructuredClientForGVK (ObjectKind dynGizmo), Call_RESTMapping (''apps'', ''Gizmo'') ''v1'']\<rparr>)"
    using C2 hC2 e s by simp
  have rC2: "getResource stubs cache0 dynGizmo world0 =
     (Inl ''no matches for kind'', cache0, world0\<lparr>calls := [Call_GVKForObject dynGizmo, Call_RESTUnstructuredClientForGVK (ObjectKind dynGizmo), Call_RESTMapping (''apps'', ''Gizmo'') ''v1'']\<rparr>)"
    using C2 hC2 e s ty by simp
  have n: "newResource stubs cache0 widget False ?w1 =
      (Inr 0, snd (newResource stubs cache0 widget False ?w1))"
    "newResource stubs cache0 dynWidget True ?w1g =
      (Inr 0, snd (newResource stubs cache0 dynWidget True ?w1g))"
    using retry_widget by (metis prod.collapse)+
  note R = failed_construction_leaves_no_trace[where L = broken and obj = widget and c = cache0
      and e = "''no kind is registered''" and w = world0 and w' = ?w1
      and c' = cache0 and ?obj2.0 = widget and ?L2.0 = stubs and ?w2.0 = ?w1 and r = 0
      and ?w3.0 = "snd (newResource stubs cache0 widget False ?w1)" and b = False
      and ?g0.0 = widgetGVK and cl = "''typed''"]
  note Rg = failed_construction_leaves_no_trace[where L = broken and obj = dynWidget
      and c = cache0 and e = "''no kind is registered''" and w = world0
      and w' = ?w1g and c' = cache0 and ?obj2.0 = dynWidget and ?L2.0 = stubs and ?w2.0 = ?w1g
      and r = 0 and ?w3.0 = "snd (newResource stubs cache0 dynWidget True ?w1g)" and b = True
      and ?g0.0 = widgetGVK and cl = "''dynamic''"]
  have t1: "fst (getResourceByType stubs cache0 widget ?w1) = Inr 0"
    using R lA1 n(1) by (metis fst_conv)
  have t2: "fst (getUnstructuredResourceByGVK stubs cache0 dynWidget ?w1g) = Inr 0"
    using Rg lA2 n(2) by (metis fst_conv)
  from e hA1 lA1 rA1 hA2 lA2 rA2 hB1 lB1 rB1 hB2 lB2 rB2 hC1 lC1 rC1 hC2 lC2 rC2 t1 t2 show ?thesis by blast
qed

subsection \<open>Racing callers\<close>












subsection \<open>Every schedule\<close>







subsection \<open>One caller, and three\<close>

text \<open>A caller that runs alone through both sections is the lookup of the source.\<close>

lemma race_alone_ByType:
  "race ByType L [0, 0] (entering [obj], c, w) =
     ([(obj, Returned (fst (getResourceByType L c obj w)))], snd (getResourceByType L c obj w))"
  by (cases "resourceByType c (TypeOf obj)")
    (simp_all add: entering_def probe_def locked_def getResourceByType_def split: prod.splits)

lemma race_alone_ByGVK:
  "race ByGVK L [0, 0] (entering [obj], c, w) =
     ([(obj, Returned (fst (getUnstructuredResourceByGVK L c obj w)))],
      snd (getUnstructuredResourceByGVK L c obj w))"
  by (cases "unstructuredResourceByGVK c (ObjectKind obj)")
    (simp_all add: entering_def probe_def locked_def getUnstructuredResourceByGVK_def
      split: prod.splits)



end
